theory Spec2Isabelle
  imports Main "HOL-Library.AList" "HOL-Library.Sublist"
begin

section \<open>The docking pipeline of \<^verbatim>\<open>src/jobs/basic_docking.py\<close>\<close>

text \<open>
  The module drives external tools through the shell, reads and writes files below
  \<^verbatim>\<open>/tmp\<close>, changes the working directory of the process and talks to a storage
  helper. Everything it touches is made explicit here: a \<open>world\<close> record holds the
  file system, the working directory, the environment, the lines printed and the trace
  of outside calls; the tools the module cannot see into (the shell, the decoder of the
  locale and the two storage functions of \<^verbatim>\<open>helpers_py.gcs_utils\<close>) are the fields of
  a \<open>platform\<close> record that every function takes as its first argument. A Python
  exception is the \<open>Inl\<close> branch of a sum; the world is returned in either branch, since
  effects that happened before a raise stay.

  A Python string is held as the bytes of its UTF-8 encoding, so that every string
  Python can read from a file is a value of the model. The path functions look only at
  \<^verbatim>\<open>/\<close> and \<^verbatim>\<open>.\<close>, bytes that never lie inside the encoding of another character;
  where the source looks at characters, in \<^verbatim>\<open>str.strip\<close>, the model looks at their
  encodings.
\<close>

subsection \<open>Strings\<close>

definition dquote :: string where
  "dquote = [CHR 0x22]"

definition squote :: string where
  "squote = [CHR 0x27]"

definition newline :: string where
  "newline = [CHR 0x0A]"

text \<open>
  Decoding bytes as UTF-8, the way \<^verbatim>\<open>open(..., encoding='utf-8')\<close> does it: strictly.
  The bytes are accepted when they are a sequence of well-formed characters (no stray
  continuation byte, no overlong form, no surrogate, nothing above U+10FFFF); what is
  accepted is its own text.
\<close>

definition byte :: "char \<Rightarrow> nat" where
  "byte c = of_char c"

definition continuation :: "char \<Rightarrow> bool" where
  "continuation c \<longleftrightarrow> 0x80 \<le> byte c \<and> byte c \<le> 0xBF"

fun utf8_valid :: "string \<Rightarrow> bool" where
  "utf8_valid [] = True"
| "utf8_valid (a # s) =
     (if byte a < 0x80 then utf8_valid s
      else if 0xC2 \<le> byte a \<and> byte a \<le> 0xDF
      then (case s of
              b # s' \<Rightarrow> continuation b \<and> utf8_valid s'
            | _ \<Rightarrow> False)
      else if 0xE0 \<le> byte a \<and> byte a \<le> 0xEF
      then (case s of
              b # c # s' \<Rightarrow>
                continuation b \<and> continuation c
                \<and> (if byte a = 0xE0 then 0xA0 \<le> byte b else True)
                \<and> (if byte a = 0xED then byte b \<le> 0x9F else True)
                \<and> utf8_valid s'
            | _ \<Rightarrow> False)
      else if 0xF0 \<le> byte a \<and> byte a \<le> 0xF4
      then (case s of
              b # c # d # s' \<Rightarrow>
                continuation b \<and> continuation c \<and> continuation d
                \<and> (if byte a = 0xF0 then 0x90 \<le> byte b else True)
                \<and> (if byte a = 0xF4 then byte b \<le> 0x8F else True)
                \<and> utf8_valid s'
            | _ \<Rightarrow> False)
      else False)"

definition utf8_decode :: "string \<Rightarrow> string option" where
  "utf8_decode b = (if utf8_valid b then Some b else None)"

text \<open>
  Universal newlines, as text mode applies them to what it reads: \<^verbatim>\<open>\r\n\<close> and a
  single \<^verbatim>\<open>\r\<close> both become \<^verbatim>\<open>\n\<close>.
\<close>

fun universal_newlines :: "string \<Rightarrow> string" where
  "universal_newlines [] = []"
| "universal_newlines (c # s) =
     (if c = CHR 0x0D
      then (case s of
              d # s' \<Rightarrow>
                if d = CHR 0x0A then CHR 0x0A # universal_newlines s'
                else CHR 0x0A # universal_newlines s
            | [] \<Rightarrow> [CHR 0x0A])
      else c # universal_newlines s)"

text \<open>
  The characters for which \<^verbatim>\<open>str.isspace\<close> holds, each as its UTF-8 encoding: U+0009
  to U+000D, U+001C to U+001F, U+0020, U+0085, U+00A0, U+1680, U+2000 to U+200A, U+2028,
  U+2029, U+202F, U+205F and U+3000.
\<close>

definition whitespace :: "string list" where
  "whitespace =
     map (\<lambda>c. [c]) [CHR 0x09, CHR 0x0A, CHR 0x0B, CHR 0x0C, CHR 0x0D,
                    CHR 0x1C, CHR 0x1D, CHR 0x1E, CHR 0x1F, CHR 0x20]
     @ [[CHR 0xC2, CHR 0x85], [CHR 0xC2, CHR 0xA0], [CHR 0xE1, CHR 0x9A, CHR 0x80]]
     @ map (\<lambda>c. [CHR 0xE2, CHR 0x80, c])
         [CHR 0x80, CHR 0x81, CHR 0x82, CHR 0x83, CHR 0x84, CHR 0x85, CHR 0x86, CHR 0x87,
          CHR 0x88, CHR 0x89, CHR 0x8A, CHR 0xA8, CHR 0xA9, CHR 0xAF]
     @ [[CHR 0xE2, CHR 0x81, CHR 0x9F], [CHR 0xE3, CHR 0x80, CHR 0x80]]"

text \<open>
  Dropping, from the front of a string, every character whose encoding is in a list.
\<close>

function drop_ws :: "string list \<Rightarrow> string \<Rightarrow> string" where
  "drop_ws seqs s =
     (case find (\<lambda>q. q \<noteq> [] \<and> prefix q s) seqs of
        None \<Rightarrow> s
      | Some q \<Rightarrow> drop_ws seqs (drop (length q) s))"
  by pat_completeness auto
termination
proof (relation "measure (\<lambda>(seqs, s). length s)")
  show "wf (measure (\<lambda>(seqs, s). length s))" by simp
next
  fix seqs :: "string list" and s q :: string
  assume "find (\<lambda>q. q \<noteq> [] \<and> prefix q s) seqs = Some q"
  then have "q \<noteq> []" and "prefix q s" by (auto simp: find_Some_iff)
  then have "s \<noteq> []" and "0 < length q" by auto
  then show "((seqs, drop (length q) s), (seqs, s)) \<in> measure (\<lambda>(seqs, s). length s)" by simp
qed

declare drop_ws.simps [simp del]

text \<open>
  \<^verbatim>\<open>str.strip()\<close>: whitespace removed at both ends. At the end of a string the
  encodings are matched from their last byte backwards.
\<close>

definition lstrip :: "string \<Rightarrow> string" where
  "lstrip s = drop_ws whitespace s"

definition rstrip :: "string \<Rightarrow> string" where
  "rstrip s = rev (drop_ws (map rev whitespace) (rev s))"

definition strip :: "string \<Rightarrow> string" where
  "strip s = lstrip (rstrip s)"

subsection \<open>Paths (\<^verbatim>\<open>posixpath\<close>)\<close>

definition os_path_join :: "string \<Rightarrow> string \<Rightarrow> string" where
  "os_path_join a b =
     (if take 1 b = ''/'' then b
      else if a = [] \<or> last a = CHR ''/'' then a @ b
      else a @ ''/'' @ b)"

definition os_path_basename :: "string \<Rightarrow> string" where
  "os_path_basename p = rev (takeWhile (\<lambda>c. c \<noteq> CHR ''/'') (rev p))"

text \<open>The components of a path: the pieces between slashes.\<close>

fun split_path :: "string \<Rightarrow> string \<Rightarrow> string list" where
  "split_path acc [] = [rev acc]"
| "split_path acc (c # cs) =
     (if c = CHR ''/'' then rev acc # split_path [] cs else split_path (c # acc) cs)"

text \<open>
  \<^verbatim>\<open>normpath\<close> on an absolute path: empty components and \<^verbatim>\<open>.\<close> are dropped,
  \<^verbatim>\<open>..\<close> removes the component before it (and is dropped at the root). The stack is
  kept reversed.
\<close>

fun norm_comps :: "string list \<Rightarrow> string list \<Rightarrow> string list" where
  "norm_comps st [] = rev st"
| "norm_comps st (c # cs) =
     (if c = [] \<or> c = ''.'' then norm_comps st cs
      else if c = ''..'' then norm_comps (tl st) cs
      else norm_comps (c # st) cs)"

definition join_comps :: "string list \<Rightarrow> string" where
  "join_comps cs = (if cs = [] then ''/'' else concat (map (\<lambda>c. ''/'' @ c) cs))"

definition normpath :: "string \<Rightarrow> string" where
  "normpath p = join_comps (norm_comps [] (split_path [] p))"

subsection \<open>The file system\<close>

text \<open>
  A file system is an association list from absolute, normalised paths to nodes; its
  order is the order \<^verbatim>\<open>os.listdir\<close> reports. A regular file holds its bytes. A
  symbolic link holds the absolute path it points to. \<open>Special\<close> stands for sockets,
  pipes and devices.
\<close>

datatype node = File string | Symlink string | Dir | Special

type_synonym filesystem = "(string \<times> node) list"

text \<open>
  Following the links at the end of a path. The kernel gives up after 40 links; a
  lookup that gives up finds nothing.
\<close>

fun resolve :: "nat \<Rightarrow> filesystem \<Rightarrow> string \<Rightarrow> string option" where
  "resolve 0 fs p = None"
| "resolve (Suc n) fs p =
     (case map_of fs p of
        Some (Symlink t) \<Rightarrow> resolve n fs t
      | _ \<Rightarrow> Some p)"

definition realpath :: "filesystem \<Rightarrow> string \<Rightarrow> string option" where
  "realpath fs p = resolve 41 fs p"

definition stat :: "filesystem \<Rightarrow> string \<Rightarrow> node option" where
  "stat fs p = (case realpath fs p of None \<Rightarrow> None | Some q \<Rightarrow> map_of fs q)"

definition dir_prefix :: "string \<Rightarrow> string" where
  "dir_prefix d = (if d = ''/'' then d else d @ ''/'')"

definition under :: "string \<Rightarrow> string \<Rightarrow> bool" where
  "under d p \<longleftrightarrow> prefix (dir_prefix d) p \<and> p \<noteq> dir_prefix d"

definition child_of :: "string \<Rightarrow> string \<Rightarrow> bool" where
  "child_of d p \<longleftrightarrow> under d p \<and> CHR ''/'' \<notin> set (drop (length (dir_prefix d)) p)"

definition parent :: "string \<Rightarrow> string" where
  "parent p = normpath (rev (dropWhile (\<lambda>c. c \<noteq> CHR ''/'') (rev p)))"

subsection \<open>Exceptions, processes, the world\<close>

text \<open>
  \<open>CalledProcessError\<close> carries what \<^verbatim>\<open>subprocess\<close> puts into it: exit status,
  command, captured output and captured error stream. \<open>OSError\<close> carries the name of
  the subclass raised and the path. \<open>UnicodeDecodeError\<close> carries the bytes that could
  not be decoded. \<open>RuntimeError m e\<close> carries its message \<open>m\<close> and the exception \<open>e\<close> it
  was raised from. \<open>StorageError\<close> is whatever a storage helper raises, with its message.
\<close>

datatype exn =
    CalledProcessError int string string string
  | OSError string string
  | UnicodeDecodeError string
  | IndexError
  | StorageError string
  | RuntimeError string exn

record completed_process =
  returncode :: int
  stdout :: string
  stderr :: string

type_synonym env = "(string \<times> string) list"

datatype call =
    Run string env string
  | Unlink string
  | Rmtree string
  | Download string
  | Upload string string string

text \<open>
  \<open>undeletable\<close> lists the paths the process may not remove (a permission problem);
  \<open>printed\<close> is what \<^verbatim>\<open>print\<close> has written, one entry per call; \<open>calls\<close> is the trace
  of calls that leave the module: a command run (with the environment and the working
  directory it ran in), a removal attempted, a download, an upload.
\<close>

record world =
  fsys :: filesystem
  cwd :: string
  environ :: env
  undeletable :: "string list"
  printed :: "string list"
  calls :: "call list"

text \<open>
  The outside. A child process sees the command, its environment, its working directory
  and the file system; it can change the file system, never the working directory or
  the environment of its parent; what it hands back are its exit status and the bytes it
  wrote to its two streams. \<open>locale_decode\<close> is the decoder of the locale's encoding,
  which \<^verbatim>\<open>subprocess\<close> applies to those bytes in text mode: it gives the text, or
  nothing when the bytes cannot be decoded. The storage helpers see the file system; a
  download writes a local file and returns its path, an upload answers with a boolean;
  either may raise.
\<close>

record platform =
  shell :: "string \<Rightarrow> env \<Rightarrow> string \<Rightarrow> filesystem \<Rightarrow> completed_process \<times> filesystem"
  locale_decode :: "string \<Rightarrow> string option"
  download_from_gcs :: "string \<Rightarrow> filesystem \<Rightarrow> (exn + string) \<times> filesystem"
  upload_to_gcs :: "string \<Rightarrow> string \<Rightarrow> string \<Rightarrow> filesystem \<Rightarrow> exn + bool"

type_synonym 'a result = "(exn + 'a) \<times> world"

definition py_print :: "string \<Rightarrow> world \<Rightarrow> world" where
  "py_print s w = w\<lparr>printed := printed w @ [s]\<rparr>"

definition record_call :: "call \<Rightarrow> world \<Rightarrow> world" where
  "record_call c w = w\<lparr>calls := calls w @ [c]\<rparr>"

subsection \<open>Operating-system calls\<close>

definition os_path_abspath :: "world \<Rightarrow> string \<Rightarrow> string" where
  "os_path_abspath w p = normpath (os_path_join (cwd w) p)"

definition os_path_exists :: "world \<Rightarrow> string \<Rightarrow> bool" where
  "os_path_exists w p \<longleftrightarrow> stat (fsys w) (os_path_abspath w p) \<noteq> None"

definition os_path_isfile :: "world \<Rightarrow> string \<Rightarrow> bool" where
  "os_path_isfile w p \<longleftrightarrow>
     (case stat (fsys w) (os_path_abspath w p) of Some (File _) \<Rightarrow> True | _ \<Rightarrow> False)"

definition os_path_isdir :: "world \<Rightarrow> string \<Rightarrow> bool" where
  "os_path_isdir w p \<longleftrightarrow>
     (case stat (fsys w) (os_path_abspath w p) of Some Dir \<Rightarrow> True | _ \<Rightarrow> False)"

definition os_path_islink :: "world \<Rightarrow> string \<Rightarrow> bool" where
  "os_path_islink w p \<longleftrightarrow>
     (case map_of (fsys w) (os_path_abspath w p) of Some (Symlink _) \<Rightarrow> True | _ \<Rightarrow> False)"

definition os_getcwd :: "world \<Rightarrow> string" where
  "os_getcwd w = cwd w"

definition os_chdir :: "string \<Rightarrow> world \<Rightarrow> unit result" where
  "os_chdir p w =
     (case realpath (fsys w) (os_path_abspath w p) of
        None \<Rightarrow> (Inl (OSError ''OSError'' p), w)
      | Some q \<Rightarrow>
          (case map_of (fsys w) q of
             Some Dir \<Rightarrow> (Inr (), w\<lparr>cwd := q\<rparr>)
           | Some _ \<Rightarrow> (Inl (OSError ''NotADirectoryError'' p), w)
           | None \<Rightarrow> (Inl (OSError ''FileNotFoundError'' p), w)))"

definition os_listdir :: "string \<Rightarrow> world \<Rightarrow> string list result" where
  "os_listdir d w =
     (case realpath (fsys w) (os_path_abspath w d) of
        None \<Rightarrow> (Inl (OSError ''OSError'' d), w)
      | Some q \<Rightarrow>
          (case map_of (fsys w) q of
             Some Dir \<Rightarrow>
               (Inr (map (drop (length (dir_prefix q))) (filter (child_of q) (map fst (fsys w)))), w)
           | Some _ \<Rightarrow> (Inl (OSError ''NotADirectoryError'' d), w)
           | None \<Rightarrow> (Inl (OSError ''FileNotFoundError'' d), w)))"

text \<open>
  \<^verbatim>\<open>os.unlink\<close> removes the entry itself, a link and not its target. The attempt is
  recorded before it is made.
\<close>

definition os_unlink :: "string \<Rightarrow> world \<Rightarrow> unit result" where
  "os_unlink p w =
     (let q = os_path_abspath w p; w1 = record_call (Unlink p) w in
      case map_of (fsys w) q of
        None \<Rightarrow> (Inl (OSError ''FileNotFoundError'' p), w1)
      | Some Dir \<Rightarrow> (Inl (OSError ''IsADirectoryError'' p), w1)
      | Some _ \<Rightarrow>
          if q \<in> set (undeletable w) then (Inl (OSError ''PermissionError'' p), w1)
          else (Inr (), w1\<lparr>fsys := AList.delete q (fsys w)\<rparr>))"

text \<open>
  \<^verbatim>\<open>shutil.rmtree\<close> removes a directory and all below it, and refuses a symbolic
  link. When an entry in the tree cannot be removed it raises; how much of the tree is
  gone by then depends on the order of the walk, and the model leaves the tree as it
  was. Nothing proved below depends on that choice.
\<close>

definition shutil_rmtree :: "string \<Rightarrow> world \<Rightarrow> unit result" where
  "shutil_rmtree p w =
     (let q = os_path_abspath w p; w1 = record_call (Rmtree p) w in
      case map_of (fsys w) q of
        None \<Rightarrow> (Inl (OSError ''FileNotFoundError'' p), w1)
      | Some Dir \<Rightarrow>
          if \<exists>x \<in> set (undeletable w). x = q \<or> under q x
          then (Inl (OSError ''PermissionError'' p), w1)
          else (Inr (), w1\<lparr>fsys := filter (\<lambda>(x, _). x \<noteq> q \<and> \<not> under q x) (fsys w)\<rparr>)
      | Some (Symlink _) \<Rightarrow> (Inl (OSError ''OSError'' p), w1)
      | Some _ \<Rightarrow> (Inl (OSError ''NotADirectoryError'' p), w1))"

text \<open>
  \<^verbatim>\<open>open(p, 'r', encoding='utf-8')\<close> gives a handle on the regular file the path leads
  to; nothing is decoded yet. Reading from the handle takes the bytes the file holds at
  that moment, decodes them and translates the newlines (nothing in this module removes
  a file between its open and its read). \<open>read_text\<close> is the two together,
  \<^verbatim>\<open>open(p).read()\<close>.
\<close>

definition open_r :: "world \<Rightarrow> string \<Rightarrow> exn + string" where
  "open_r w p =
     (case realpath (fsys w) (os_path_abspath w p) of
        None \<Rightarrow> Inl (OSError ''OSError'' p)
      | Some q \<Rightarrow>
          (case map_of (fsys w) q of
             Some (File _) \<Rightarrow> Inr q
           | Some Dir \<Rightarrow> Inl (OSError ''IsADirectoryError'' p)
           | Some _ \<Rightarrow> Inl (OSError ''OSError'' p)
           | None \<Rightarrow> Inl (OSError ''FileNotFoundError'' p)))"

definition read_handle :: "world \<Rightarrow> string \<Rightarrow> exn + string" where
  "read_handle w q =
     (case map_of (fsys w) q of
        Some (File c) \<Rightarrow>
          (case utf8_decode c of
             Some t \<Rightarrow> Inr (universal_newlines t)
           | None \<Rightarrow> Inl (UnicodeDecodeError c))
      | _ \<Rightarrow> Inl (OSError ''OSError'' q))"

definition read_text :: "world \<Rightarrow> string \<Rightarrow> exn + string" where
  "read_text w p = (case open_r w p of Inl e \<Rightarrow> Inl e | Inr q \<Rightarrow> read_handle w q)"

text \<open>
  \<^verbatim>\<open>open(p, 'w')\<close>: the file the path leads to is created or emptied, and the place
  that later writes go to is returned. The directory it lies in must exist.
\<close>

definition open_w :: "string \<Rightarrow> world \<Rightarrow> string result" where
  "open_w p w =
     (case realpath (fsys w) (os_path_abspath w p) of
        None \<Rightarrow> (Inl (OSError ''OSError'' p), w)
      | Some q \<Rightarrow>
          (case map_of (fsys w) q of
             Some Dir \<Rightarrow> (Inl (OSError ''IsADirectoryError'' p), w)
           | Some Special \<Rightarrow> (Inl (OSError ''OSError'' p), w)
           | _ \<Rightarrow>
               if stat (fsys w) (parent q) = Some Dir
               then (Inr q, w\<lparr>fsys := AList.update q (File []) (fsys w)\<rparr>)
               else (Inl (OSError ''FileNotFoundError'' p), w)))"

text \<open>
  Appending text to a file opened for writing, at the place \<open>open_w\<close> returned. The
  file is opened with \<^verbatim>\<open>encoding='utf-8'\<close>, so the bytes written are the text as the
  model holds it; a newline is written as it is, as on every POSIX system.
\<close>

definition write_text :: "string \<Rightarrow> string \<Rightarrow> world \<Rightarrow> world" where
  "write_text q s w =
     w\<lparr>fsys := AList.update q
        (File ((case map_of (fsys w) q of Some (File c) \<Rightarrow> c | _ \<Rightarrow> []) @ s)) (fsys w)\<rparr>"

subsection \<open>\<^verbatim>\<open>run_command\<close>\<close>

text \<open>
  \<^verbatim>\<open>subprocess.run(command, shell=True, check=check, text=True, capture_output=True,
  env=env)\<close>: the child inherits the environment of the process when \<open>env\<close> is
  \<^verbatim>\<open>None\<close>. In text mode the bytes captured from the two streams are decoded, the
  output first, and their newlines translated, before the exit status is looked at;
  bytes that cannot be decoded raise \<open>UnicodeDecodeError\<close>, whatever \<open>check\<close> is, and
  the handler of \<open>run_command\<close> does not catch it. With \<open>check\<close> a non-zero exit status
  raises \<open>CalledProcessError\<close>, which \<open>run_command\<close> reports and raises again.
\<close>

definition text_mode :: "platform \<Rightarrow> completed_process \<Rightarrow> exn + completed_process" where
  "text_mode ext raw =
     (case locale_decode ext (stdout raw) of
        None \<Rightarrow> Inl (UnicodeDecodeError (stdout raw))
      | Some out \<Rightarrow>
          (case locale_decode ext (stderr raw) of
             None \<Rightarrow> Inl (UnicodeDecodeError (stderr raw))
           | Some err \<Rightarrow>
               Inr \<lparr>returncode = returncode raw, stdout = universal_newlines out,
                    stderr = universal_newlines err\<rparr>))"

definition run_command ::
  "platform \<Rightarrow> string \<Rightarrow> bool \<Rightarrow> env option \<Rightarrow> world \<Rightarrow> completed_process result" where
  "run_command ext command check env w =
     (let e = (case env of None \<Rightarrow> environ w | Some e' \<Rightarrow> e');
          (raw, fs') = shell ext command e (cwd w) (fsys w);
          w1 = record_call (Run command e (cwd w)) (w\<lparr>fsys := fs'\<rparr>)
      in case text_mode ext raw of
           Inl err \<Rightarrow> (Inl err, w1)
         | Inr r \<Rightarrow>
             if check \<and> returncode r \<noteq> 0
             then (Inl (CalledProcessError (returncode r) command (stdout r) (stderr r)),
                   py_print (''Stderr: '' @ stderr r)
                     (py_print (''Error while running command: '' @ command) w1))
             else (Inr r, py_print (stdout r) w1))"

subsection \<open>The text of an exception\<close>

text \<open>An integer in decimal, as \<^verbatim>\<open>{n}\<close> shows it: digits are produced from the right.\<close>

definition digit :: "nat \<Rightarrow> char" where
  "digit d = ''0123456789'' ! d"

function decimal :: "nat \<Rightarrow> string \<Rightarrow> string" where
  "decimal n acc =
     (let acc' = digit (n mod 10) # acc
      in if n div 10 = 0 then acc' else decimal (n div 10) acc')"
  by pat_completeness auto
termination
  by (relation "measure fst") auto

definition py_str_int :: "int \<Rightarrow> string" where
  "py_str_int i = (if 0 \<le> i then decimal (nat i) [] else CHR ''-'' # decimal (nat (- i)) [])"

text \<open>
  What \<^verbatim>\<open>{e}\<close> in an f-string gives. For an \<open>OSError\<close> the operating system's own
  wording is replaced by the name of the error and the path; for a
  \<open>UnicodeDecodeError\<close> the codec's wording, which names the codec, the byte and its
  position, is cut down to the words every such message has.
\<close>

fun str_exn :: "exn \<Rightarrow> string" where
  "str_exn (CalledProcessError rc cmd out err) =
     ''Command '' @ squote @ cmd @ squote @ '' returned non-zero exit status ''
       @ py_str_int rc @ ''.''"
| "str_exn (OSError kind p) = kind @ '': '' @ squote @ p @ squote"
| "str_exn (UnicodeDecodeError b) = ''codec can't decode byte''"
| "str_exn IndexError = ''list index out of range''"
| "str_exn (StorageError m) = m"
| "str_exn (RuntimeError m e) = m"

text \<open>Indexing a list: out of range raises.\<close>

definition py_index :: "'a list \<Rightarrow> nat \<Rightarrow> exn + 'a" where
  "py_index xs i = (if i < length xs then Inr (xs ! i) else Inl IndexError)"

text \<open>\<^verbatim>\<open>{xs}\<close> for a list of strings, as \<^verbatim>\<open>print\<close> shows it.\<close>

fun py_repr_items :: "string list \<Rightarrow> string" where
  "py_repr_items [] = []"
| "py_repr_items [x] = squote @ x @ squote"
| "py_repr_items (x # y # ys) = squote @ x @ squote @ '', '' @ py_repr_items (y # ys)"

definition py_repr_list :: "string list \<Rightarrow> string" where
  "py_repr_list xs = ''['' @ py_repr_items xs @ '']''"

subsection \<open>\<^verbatim>\<open>clear_tmp\<close>\<close>

text \<open>
  The body of the loop, for one name \<^verbatim>\<open>os.listdir\<close> returned: the \<^verbatim>\<open>try\<close>
  block, then the handler, which prints and lets the loop go on.
\<close>

definition clear_tmp_entry :: "string \<Rightarrow> string \<Rightarrow> world \<Rightarrow> world" where
  "clear_tmp_entry tmp_dir filename w =
     (let file_path = os_path_join tmp_dir filename in
      case (if os_path_isfile w file_path \<or> os_path_islink w file_path
            then os_unlink file_path w
            else if os_path_isdir w file_path
            then shutil_rmtree file_path w
            else (Inr (), w)) of
        (Inl e, w1) \<Rightarrow> py_print (''Failed to delete '' @ file_path @ '': '' @ str_exn e) w1
      | (Inr _, w1) \<Rightarrow> w1)"

fun clear_tmp_loop :: "string \<Rightarrow> string list \<Rightarrow> world \<Rightarrow> world" where
  "clear_tmp_loop tmp_dir [] w = w"
| "clear_tmp_loop tmp_dir (filename # rest) w =
     clear_tmp_loop tmp_dir rest (clear_tmp_entry tmp_dir filename w)"

definition clear_tmp :: "world \<Rightarrow> unit result" where
  "clear_tmp w =
     (let tmp_dir = ''/tmp'' in
      case os_listdir tmp_dir w of
        (Inl e, w1) \<Rightarrow> (Inl e, w1)
      | (Inr names, w1) \<Rightarrow> (Inr (), clear_tmp_loop tmp_dir names w1))"

subsection \<open>Ligand preparation\<close>

definition add_protomers :: "platform \<Rightarrow> string \<Rightarrow> world \<Rightarrow> string result" where
  "add_protomers ext ligand w =
     (let output_path = ''/tmp/ligand_with_protomers.sdf'' in
      case read_text w ligand of
        Inl e \<Rightarrow>
          (Inl (RuntimeError (''Failed to read SMILES file '' @ ligand @ '': '' @ str_exn e) e), w)
      | Inr text \<Rightarrow>
          (let smiles_string = strip text in
           case run_command ext
                  (''micromamba run -n dwa_env scrub.py '' @ dquote @ smiles_string @ dquote
                     @ '' -o '' @ output_path @ '' --skip_tautomers --ph_low 5 --ph_high 9'')
                  True None w of
             (Inl e, w1) \<Rightarrow> (Inl e, w1)
           | (Inr _, w1) \<Rightarrow> (Inr output_path, w1)))"

definition prepare_ligand :: "platform \<Rightarrow> string \<Rightarrow> world \<Rightarrow> string result" where
  "prepare_ligand ext ligand w =
     (let w0 = py_print ''Preparing ligand...'' w;
          output_path = ''/tmp/ligand_protomers'' in
      case add_protomers ext ligand w0 of
        (Inl e, w1) \<Rightarrow> (Inl e, w1)
      | (Inr ligand_with_protomers, w1) \<Rightarrow>
          (case run_command ext
                  (''micromamba run -n dwa_env mk_prepare_ligand.py -i '' @ ligand_with_protomers
                     @ '' --multimol_outdir '' @ output_path)
                  True None w1 of
             (Inl e, w2) \<Rightarrow> (Inl e, w2)
           | (Inr _, w2) \<Rightarrow> (Inr (output_path @ ''/_i0.pdbqt''), w2)))"

subsection \<open>Receptor preparation\<close>

definition extract_receptor_atoms :: "platform \<Rightarrow> string \<Rightarrow> world \<Rightarrow> string result" where
  "extract_receptor_atoms ext receptor w =
     (let output_path = ''/tmp/receptor_atoms.pdb'' in
      case run_command ext
             (''micromamba run -n dwa_env python3 - <<EOF'' @ newline
              @ ''from prody import parsePDB, writePDB'' @ newline
              @ ''pdb_token = '' @ squote @ receptor @ squote @ newline
              @ ''atoms_from_pdb = parsePDB(pdb_token)'' @ newline
              @ ''receptor_selection = '' @ squote @ ''chain A and not water and not hetero''
                  @ squote @ newline
              @ ''receptor_atoms = atoms_from_pdb.select(receptor_selection)'' @ newline
              @ ''writePDB('' @ squote @ output_path @ squote @ '', receptor_atoms)'' @ newline
              @ ''EOF'' @ newline)
             True None w of
        (Inl e, w1) \<Rightarrow> (Inl e, w1)
      | (Inr _, w1) \<Rightarrow>
          (Inr output_path,
           py_print (''Receptor atoms extracted: saved to '' @ output_path) w1))"

text \<open>
  The \<^verbatim>\<open>with\<close> statement opens the atoms file for reading, then the output file for
  writing, which empties it. What is written stays in the writer's buffer until the
  block is left (a record line is far shorter than the buffer), so \<^verbatim>\<open>readlines\<close>
  sees the file system as it is right after the two opens; when \<^verbatim>\<open>readlines\<close>
  raises, leaving the block still writes the buffer out.
  The last \<^verbatim>\<open>print\<close> is not an f-string: the braces are printed as they are.
\<close>

definition extract_and_combine_cryst1 ::
  "platform \<Rightarrow> string \<Rightarrow> string \<Rightarrow> world \<Rightarrow> string result" where
  "extract_and_combine_cryst1 ext receptor receptor_atoms w =
     (let w0 = py_print ''Extracting CRYST1 and combining with receptor atoms...'' w;
          output_path = ''/tmp/receptor_cryst1.pdb'' in
      case run_command ext (''grep '' @ dquote @ ''CRYST1'' @ dquote @ '' '' @ receptor)
             False None w0 of
        (Inl e, w1) \<Rightarrow> (Inl e, w1)
      | (Inr r, w1) \<Rightarrow>
          (let cryst1_line = strip (stdout r) in
           case open_r w1 receptor_atoms of
             Inl e \<Rightarrow> (Inl e, w1)
           | Inr receptor_f \<Rightarrow>
               (case open_w output_path w1 of
                  (Inl e, w2) \<Rightarrow> (Inl e, w2)
                | (Inr combined_f, w2) \<Rightarrow>
                    (let w3 = (if cryst1_line \<noteq> []
                               then write_text combined_f (cryst1_line @ newline) w2
                               else w2)
                     in case read_handle w2 receptor_f of
                          Inl e \<Rightarrow> (Inl e, w3)
                        | Inr lines \<Rightarrow>
                            (Inr output_path,
                             py_print ''Combined receptor file created: {output_path}''
                               (write_text combined_f lines w3))))))"

definition add_hydrogens_and_optimize :: "platform \<Rightarrow> string \<Rightarrow> world \<Rightarrow> string result" where
  "add_hydrogens_and_optimize ext receptor_cryst1 w =
     (let w0 = py_print ''Adding hydrogens and optimizing with reduce2.py...'' w;
          output_path = ''/tmp/receptor_cryst1FH.pdb'';
          micromamba_path = ''/opt/conda/envs/dwa_env/lib/python3.11/site-packages'';
          reduce2_path =
            os_path_join (os_path_join (os_path_join micromamba_path ''mmtbx'') ''command_line'')
              ''reduce2.py'';
          reduce_opts = ''approach=add add_flip_movers=True'';
          geostd_path = os_path_abspath w0 ''geostd'';
          env = AList.update ''MMTBX_CCP4_MONOMER_LIB'' geostd_path (environ w0);
          current_dir = os_getcwd w0 in
      case os_chdir ''/tmp/'' w0 of
        (Inl e, w1) \<Rightarrow> (Inl e, w1)
      | (Inr _, w1) \<Rightarrow>
          (case run_command ext
                  (''micromamba run -n dwa_env python3 '' @ reduce2_path @ '' '' @ receptor_cryst1
                     @ '' '' @ reduce_opts)
                  True (Some env) w1 of
             (Inl e, w2) \<Rightarrow> (Inl e, w2)
           | (Inr _, w2) \<Rightarrow>
               (case os_chdir current_dir w2 of
                  (Inl e, w3) \<Rightarrow> (Inl e, w3)
                | (Inr _, w3) \<Rightarrow>
                    (Inr output_path,
                     py_print ''Hydrogens added and optimized. Output: {output_path}'' w3))))"

definition prepare_receptor ::
  "platform \<Rightarrow> string \<Rightarrow> string \<Rightarrow> world \<Rightarrow> (string \<times> string) result" where
  "prepare_receptor ext receptor box w =
     (let w0 = py_print ''Preparing receptor...'' w;
          intermediate_path = ''/tmp/receptor_prepared'';
          output_path = intermediate_path @ ''.pdbqt'' in
      case extract_receptor_atoms ext receptor w0 of
        (Inl e, w1) \<Rightarrow> (Inl e, w1)
      | (Inr receptor_atoms, w1) \<Rightarrow>
          (case extract_and_combine_cryst1 ext receptor receptor_atoms w1 of
             (Inl e, w2) \<Rightarrow> (Inl e, w2)
           | (Inr receptor_cryst1, w2) \<Rightarrow>
               (case add_hydrogens_and_optimize ext receptor_cryst1
                       (py_print (''CRYST1 combined: saved to '' @ receptor_cryst1) w2) of
                  (Inl e, w3) \<Rightarrow> (Inl e, w3)
                | (Inr receptor_cryst1FH, w3) \<Rightarrow>
                    (case run_command ext
                            (''micromamba run -n dwa_env mk_prepare_receptor.py --read_pdb ''
                               @ receptor_cryst1FH @ '' -o '' @ intermediate_path
                               @ '' -p -v --box_enveloping '' @ box @ '' --padding 5'')
                            True None
                            (py_print (''Hydrogens added and optimized: saved to ''
                                         @ receptor_cryst1FH) w3) of
                       (Inl e, w4) \<Rightarrow> (Inl e, w4)
                     | (Inr _, w4) \<Rightarrow>
                         (Inr (receptor_cryst1FH, output_path),
                          py_print ''Receptor preparation complete.'' w4)))))"

subsection \<open>Docking and export\<close>

definition run_docking :: "platform \<Rightarrow> string \<Rightarrow> string \<Rightarrow> world \<Rightarrow> string result" where
  "run_docking ext ligand_prepared receptor_prepared w =
     (let w0 = py_print ''Running docking...'' w;
          output_path = ''/tmp/docking.pdbqt'';
          config_txt = ''/tmp/receptor_prepared.box.txt'' in
      case run_command ext
             (''micromamba run -n dwa_env vina --ligand '' @ ligand_prepared @ '' --receptor ''
                @ receptor_prepared @ '' --config '' @ config_txt @ '' --out '' @ output_path)
             True None w0 of
        (Inl e, w1) \<Rightarrow> (Inl e, w1)
      | (Inr _, w1) \<Rightarrow> (Inr output_path, w1))"

definition export_pose :: "platform \<Rightarrow> string \<Rightarrow> world \<Rightarrow> string result" where
  "export_pose ext docking w =
     (let w0 = py_print ''Exporting docked pose...'' w;
          output_path = ''/tmp/pose.sdf'' in
      case run_command ext
             (''micromamba run -n dwa_env mk_export.py '' @ docking @ '' -s '' @ output_path)
             True None w0 of
        (Inl e, w1) \<Rightarrow> (Inl e, w1)
      | (Inr _, w1) \<Rightarrow> (Inr output_path, w1))"

subsection \<open>Storage\<close>

fun retrieve_gcs_files_loop ::
  "platform \<Rightarrow> string list \<Rightarrow> string list \<Rightarrow> world \<Rightarrow> string list result" where
  "retrieve_gcs_files_loop ext [] local_files w = (Inr local_files, w)"
| "retrieve_gcs_files_loop ext (gcs_path # rest) local_files w =
     (case download_from_gcs ext gcs_path (fsys w) of
        (Inl e, fs') \<Rightarrow> (Inl e, record_call (Download gcs_path) (w\<lparr>fsys := fs'\<rparr>))
      | (Inr local_path, fs') \<Rightarrow>
          retrieve_gcs_files_loop ext rest (local_files @ [local_path])
            (record_call (Download gcs_path) (w\<lparr>fsys := fs'\<rparr>)))"

definition retrieve_gcs_files :: "platform \<Rightarrow> string list \<Rightarrow> world \<Rightarrow> string list result" where
  "retrieve_gcs_files ext remote_paths w = retrieve_gcs_files_loop ext remote_paths [] w"

subsection \<open>\<^verbatim>\<open>run_job\<close>\<close>

text \<open>
  The result dictionary: \<^verbatim>\<open>failed_files\<close> is a key only of a partial success.
\<close>

record job_result =
  status :: string
  outputs :: "string list"
  failed_files :: "string list option"

text \<open>
  The loop over \<^verbatim>\<open>files_to_upload\<close>, with the two lists it appends to.
  An upload is recorded in the trace when it is made.
\<close>

fun upload_loop ::
  "platform \<Rightarrow> string \<Rightarrow> (string \<times> string) list \<Rightarrow> string list \<Rightarrow> string list \<Rightarrow> world
     \<Rightarrow> (string list \<times> string list) result" where
  "upload_loop ext dirname [] success_files failed w = (Inr (success_files, failed), w)"
| "upload_loop ext dirname ((local_path, filename) # rest) success_files failed w =
     (if os_path_exists w local_path
      then (case upload_to_gcs ext local_path dirname filename (fsys w) of
              Inl e \<Rightarrow> (Inl e, record_call (Upload local_path dirname filename) w)
            | Inr ok \<Rightarrow>
                if ok
                then upload_loop ext dirname rest (success_files @ [filename]) failed
                       (record_call (Upload local_path dirname filename) w)
                else upload_loop ext dirname rest success_files (failed @ [filename])
                       (record_call (Upload local_path dirname filename) w))
      else upload_loop ext dirname rest success_files (failed @ [filename])
             (py_print (''File not found: '' @ local_path) w))"

text \<open>
  The body of the \<^verbatim>\<open>try\<close> block in two parts. \<open>run_stages\<close> is lines 205 to 222:
  clearing, the downloads and the four stages; it returns the docking output, the pose
  and the hydrogenated receptor. \<open>publish\<close> is lines 226 to 252: the uploads and the
  result.
\<close>

definition run_stages ::
  "platform \<Rightarrow> string \<Rightarrow> string \<Rightarrow> string \<Rightarrow> world \<Rightarrow> (string \<times> string \<times> string) result" where
  "run_stages ext ligand receptor box w =
     (case clear_tmp w of
        (Inl e, w1) \<Rightarrow> (Inl e, w1)
      | (Inr _, w1) \<Rightarrow>
     (case retrieve_gcs_files ext [ligand, receptor, box] w1 of
        (Inl e, w2) \<Rightarrow> (Inl e, w2)
      | (Inr local_paths, w2) \<Rightarrow>
     (case py_index local_paths 0 of Inl e \<Rightarrow> (Inl e, w2) | Inr ligand_local \<Rightarrow>
     (case py_index local_paths 1 of Inl e \<Rightarrow> (Inl e, w2) | Inr receptor_local \<Rightarrow>
     (case py_index local_paths 2 of Inl e \<Rightarrow> (Inl e, w2) | Inr box_local \<Rightarrow>
     (case prepare_ligand ext ligand_local w2 of
        (Inl e, w3) \<Rightarrow> (Inl e, w3)
      | (Inr ligand_prepared, w3) \<Rightarrow>
     (case prepare_receptor ext receptor_local box_local w3 of
        (Inl e, w4) \<Rightarrow> (Inl e, w4)
      | (Inr (target, receptor_prepared), w4) \<Rightarrow>
     (case run_docking ext ligand_prepared receptor_prepared w4 of
        (Inl e, w5) \<Rightarrow> (Inl e, w5)
      | (Inr docking, w5) \<Rightarrow>
     (case export_pose ext docking w5 of
        (Inl e, w6) \<Rightarrow> (Inl e, w6)
      | (Inr pose, w6) \<Rightarrow> (Inr (docking, pose, target), w6))))))))))"

definition publish ::
  "platform \<Rightarrow> string \<Rightarrow> string \<Rightarrow> string \<Rightarrow> string \<Rightarrow> world \<Rightarrow> job_result result" where
  "publish ext dirname docking pose target w =
     (let files_to_upload =
            [(docking, os_path_basename docking),
             (pose, os_path_basename pose),
             (target, os_path_basename target)] in
      case upload_loop ext dirname files_to_upload [] [] w of
        (Inl e, w1) \<Rightarrow> (Inl e, w1)
      | (Inr (success_files, failed), w1) \<Rightarrow>
          (let w2 = py_print (''Failed uploads: '' @ py_repr_list failed)
                      (py_print (''Successfully uploaded: '' @ py_repr_list success_files)
                         (py_print ''Upload summary:'' w1)) in
           if failed \<noteq> []
           then (Inr \<lparr>status = ''partial_success'', outputs = success_files,
                      failed_files = Some failed\<rparr>, w2)
           else (Inr \<lparr>status = ''success'', outputs = success_files,
                      failed_files = None\<rparr>, w2)))"

text \<open>The handler of \<^verbatim>\<open>run_job\<close> wraps whatever the body raised.\<close>

definition run_job ::
  "platform \<Rightarrow> string \<Rightarrow> string \<Rightarrow> string \<Rightarrow> string \<Rightarrow> world \<Rightarrow> job_result result" where
  "run_job ext ligand receptor box dirname w =
     (case (case run_stages ext ligand receptor box w of
              (Inl e, w1) \<Rightarrow> (Inl e, w1)
            | (Inr (docking, pose, target), w1) \<Rightarrow> publish ext dirname docking pose target w1) of
        (Inl e, w2) \<Rightarrow> (Inl (RuntimeError (''Workflow failed: '' @ str_exn e) e), w2)
      | (Inr res, w2) \<Rightarrow> (Inr res, w2))"

subsection \<open>Vocabulary for the properties of \<^verbatim>\<open>clear_tmp\<close>\<close>

text \<open>
  An entry of the scratch root as the file system stores it; the external call that
  removing a node takes; whether removing the entry at a path fails; the line printed
  when it does.
\<close>

definition tmp_key :: "string \<Rightarrow> bool" where
  "tmp_key k \<longleftrightarrow> child_of ''/tmp'' k \<and> normpath k = k"

definition attempt_of :: "filesystem \<Rightarrow> string \<Rightarrow> call list" where
  "attempt_of fs k =
     (case map_of fs k of
        Some (File _) \<Rightarrow> [Unlink k]
      | Some (Symlink _) \<Rightarrow> [Unlink k]
      | Some Dir \<Rightarrow> [Rmtree k]
      | _ \<Rightarrow> [])"

definition removal_fails :: "world \<Rightarrow> string \<Rightarrow> bool" where
  "removal_fails w k =
     (case map_of (fsys w) k of
        Some Dir \<Rightarrow> (\<exists>x \<in> set (undeletable w). x = k \<or> under k x)
      | Some Special \<Rightarrow> False
      | Some _ \<Rightarrow> k \<in> set (undeletable w)
      | None \<Rightarrow> False)"

definition failure_line :: "string \<Rightarrow> string" where
  "failure_line k = ''Failed to delete '' @ k @ '': '' @ str_exn (OSError ''PermissionError'' k)"

abbreviation (input) "base k \<equiv> drop (length (dir_prefix ''/tmp'')) k"

subsection \<open>Vocabulary for the properties of \<^verbatim>\<open>run_job\<close>\<close>

text \<open>
  The three files \<open>run_job\<close> publishes, each with the name it is published under: the
  paths the stages return and their base names. A deliverable is \<open>uploaded\<close> in a
  world when it exists there and the storage helper answers \<^verbatim>\<open>True\<close>;
  \<open>upload_raises\<close> when it exists and the helper raises. \<open>failed_list\<close> reads the
  \<^verbatim>\<open>failed_files\<close> key of a result, a missing key being no failures. \<open>summary\<close> is
  the dictionary the last lines of \<open>run_job\<close> build from the two lists.
\<close>

definition deliverables :: "(string \<times> string) list" where
  "deliverables =
     [(''/tmp/docking.pdbqt'', ''docking.pdbqt''),
      (''/tmp/pose.sdf'', ''pose.sdf''),
      (''/tmp/receptor_cryst1FH.pdb'', ''receptor_cryst1FH.pdb'')]"

definition uploaded :: "platform \<Rightarrow> string \<Rightarrow> world \<Rightarrow> string \<times> string \<Rightarrow> bool" where
  "uploaded ext dirname w f \<longleftrightarrow>
     os_path_exists w (fst f) \<and> upload_to_gcs ext (fst f) dirname (snd f) (fsys w) = Inr True"

definition upload_raises :: "platform \<Rightarrow> string \<Rightarrow> world \<Rightarrow> string \<times> string \<Rightarrow> bool" where
  "upload_raises ext dirname w f \<longleftrightarrow>
     os_path_exists w (fst f) \<and>
     (case upload_to_gcs ext (fst f) dirname (snd f) (fsys w) of Inl _ \<Rightarrow> True | Inr _ \<Rightarrow> False)"

definition failed_list :: "job_result \<Rightarrow> string list" where
  "failed_list res = (case failed_files res of None \<Rightarrow> [] | Some fl \<Rightarrow> fl)"

definition summary :: "string list \<Rightarrow> string list \<Rightarrow> job_result" where
  "summary success_files failed =
     (if failed \<noteq> []
      then \<lparr>status = ''partial_success'', outputs = success_files, failed_files = Some failed\<rparr>
      else \<lparr>status = ''success'', outputs = success_files, failed_files = None\<rparr>)"

subsection \<open>Vocabulary for the commands run\<close>

text \<open>
  The commands in a trace, in the order they ran. The command line of the docking solver
  for a given ligand, receptor, configuration file and output file, as \<open>run_docking\<close>
  writes it. \<open>spec_box_config\<close> follows the words of the specification: the
  configuration of a prepared receptor \<^verbatim>\<open>X.pdbqt\<close> is \<^verbatim>\<open>X.box.txt\<close>.
  \<open>config_follows_receptor\<close> says that \<open>run_docking\<close>, given a prepared receptor, runs
  the solver with the configuration file so derived from it.
\<close>

definition commands_run :: "call list \<Rightarrow> string list" where
  "commands_run cs = concat (map (\<lambda>c. case c of Run cmd _ _ \<Rightarrow> [cmd] | _ \<Rightarrow> []) cs)"

definition vina_command :: "string \<Rightarrow> string \<Rightarrow> string \<Rightarrow> string \<Rightarrow> string" where
  "vina_command ligand receptor config out =
     ''micromamba run -n dwa_env vina --ligand '' @ ligand @ '' --receptor '' @ receptor
       @ '' --config '' @ config @ '' --out '' @ out"

definition spec_box_config :: "string \<Rightarrow> string option" where
  "spec_box_config p =
     (if suffix ''.pdbqt'' p then Some (take (length p - length ''.pdbqt'') p @ ''.box.txt'') else None)"

definition config_follows_receptor :: "platform \<Rightarrow> string \<Rightarrow> string \<Rightarrow> world \<Rightarrow> bool" where
  "config_follows_receptor ext ligand_prepared receptor_prepared w \<longleftrightarrow>
     (case spec_box_config receptor_prepared of
        None \<Rightarrow> False
      | Some c \<Rightarrow>
          commands_run (calls (snd (run_docking ext ligand_prepared receptor_prepared w))) =
            commands_run (calls w) @ [vina_command ligand_prepared receptor_prepared c ''/tmp/docking.pdbqt''])"

text \<open>
  The two commands of ligand preparation, recognised by how they begin, and their full
  text: the one \<open>add_protomers\<close> writes for a SMILES string, and the one
  \<open>prepare_ligand\<close> writes for the file \<open>add_protomers\<close> returns.
\<close>

definition ligand_command :: "string \<Rightarrow> bool" where
  "ligand_command c \<longleftrightarrow>
     prefix ''micromamba run -n dwa_env scrub.py '' c
     \<or> prefix ''micromamba run -n dwa_env mk_prepare_ligand.py '' c"

definition scrub_command :: "string \<Rightarrow> string" where
  "scrub_command smiles_string =
     ''micromamba run -n dwa_env scrub.py '' @ dquote @ smiles_string @ dquote
       @ '' -o /tmp/ligand_with_protomers.sdf --skip_tautomers --ph_low 5 --ph_high 9''"

definition mk_prepare_ligand_command :: string where
  "mk_prepare_ligand_command =
     ''micromamba run -n dwa_env mk_prepare_ligand.py -i /tmp/ligand_with_protomers.sdf''
       @ '' --multimol_outdir /tmp/ligand_protomers''"

subsection \<open>Vocabulary for the crystallographic-record merge\<close>

text \<open>
  The lines of a text, without their terminators, and its first line. What
  \<^verbatim>\<open>grep\<close> prints for a pattern and a file: the lines that contain the pattern, each
  followed by a newline. \<^verbatim>\<open>grep\<close> is a tool outside the repository; this is what its
  manual says, used in the hypotheses below and in the example shell. \<open>merged_text\<close> is
  the text \<open>extract_and_combine_cryst1\<close> writes when \<^verbatim>\<open>grep\<close> behaves so: the
  stripped output of \<^verbatim>\<open>grep\<close> and a newline, when the stripped output is not empty,
  then the text of the atoms file.
\<close>

fun lines_acc :: "string \<Rightarrow> string \<Rightarrow> string list" where
  "lines_acc acc [] = (if acc = [] then [] else [rev acc])"
| "lines_acc acc (c # cs) =
     (if c = CHR 0x0A then rev acc # lines_acc [] cs else lines_acc (c # acc) cs)"

definition lines_of :: "string \<Rightarrow> string list" where
  "lines_of s = lines_acc [] s"

definition first_line :: "string \<Rightarrow> string" where
  "first_line s = takeWhile (\<lambda>c. c \<noteq> CHR 0x0A) s"

definition grep_lines :: "string \<Rightarrow> string \<Rightarrow> string list" where
  "grep_lines pat content = filter (sublist pat) (lines_of content)"

definition grep_stdout :: "string \<Rightarrow> string \<Rightarrow> string" where
  "grep_stdout pat content = concat (map (\<lambda>l. l @ newline) (grep_lines pat content))"

definition merged_text :: "string \<Rightarrow> string \<Rightarrow> string" where
  "merged_text raw atoms =
     (let cryst1_line = strip (grep_stdout ''CRYST1'' raw)
      in (if cryst1_line \<noteq> [] then cryst1_line @ newline else []) @ atoms)"

section \<open>Example platforms and worlds\<close>

text \<open>A shell in which every command fails with status 1 and a message.\<close>

definition failing_shell ::
  "string \<Rightarrow> env \<Rightarrow> string \<Rightarrow> filesystem \<Rightarrow> completed_process \<times> filesystem" where
  "failing_shell command e d fs =
     (\<lparr>returncode = 1, stdout = [], stderr = ''boom''\<rparr>, fs)"

definition failing_platform :: platform where
  "failing_platform =
     \<lparr>shell = failing_shell,
      locale_decode = utf8_decode,
      download_from_gcs = (\<lambda>p fs. (Inr p, fs)),
      upload_to_gcs = (\<lambda>p d n fs. Inr True)\<rparr>"

text \<open>
  A shell in which every command fails with status 1 after writing one byte that is not
  UTF-8 to its error stream.
\<close>

definition garbled_shell ::
  "string \<Rightarrow> env \<Rightarrow> string \<Rightarrow> filesystem \<Rightarrow> completed_process \<times> filesystem" where
  "garbled_shell command e d fs =
     (\<lparr>returncode = 1, stdout = [], stderr = [CHR 0xFF]\<rparr>, fs)"

definition garbled_platform :: platform where
  "garbled_platform =
     \<lparr>shell = garbled_shell,
      locale_decode = utf8_decode,
      download_from_gcs = (\<lambda>p fs. (Inr p, fs)),
      upload_to_gcs = (\<lambda>p d n fs. Inr True)\<rparr>"

definition app_world :: world where
  "app_world =
     \<lparr>fsys = [(''/tmp'', Dir), (''/app'', Dir)],
      cwd = ''/app'',
      environ = [],
      undeletable = [],
      printed = [],
      calls = []\<rparr>"

text \<open>A scratch root with a file, a file that cannot be removed, a directory, a link and a socket.\<close>

definition tmp_world :: world where
  "tmp_world =
     \<lparr>fsys = [(''/tmp'', Dir), (''/tmp/a.sdf'', File ''CCO''), (''/tmp/keep.lock'', File []),
              (''/tmp/old'', Dir), (''/tmp/old/x.pdb'', File ''ATOM''),
              (''/tmp/link'', Symlink ''/app/data''), (''/tmp/sock'', Special), (''/app'', Dir)],
      cwd = ''/app'',
      environ = [],
      undeletable = [''/tmp/keep.lock''],
      printed = [],
      calls = []\<rparr>"

text \<open>
  A laboratory in which every tool succeeds: a command exits with status 0 and leaves
  behind the files in \<open>produced\<close> that are not there yet; a download writes a file
  under \<^verbatim>\<open>/tmp\<close>; an upload answers what \<open>accepted\<close> says of the name. \<open>lab_files\<close>
  is the file system after the three downloads into \<open>app_world\<close>, \<open>lab_result\<close> the
  one after the stages. In \<open>lab_partial\<close> the export leaves no pose file and the
  storage refuses the docking output.
\<close>

definition grow :: "filesystem \<Rightarrow> filesystem \<Rightarrow> filesystem" where
  "grow produced fs = fs @ filter (\<lambda>(k, _). map_of fs k = None) produced"

definition tool_shell ::
  "filesystem \<Rightarrow> string \<Rightarrow> env \<Rightarrow> string \<Rightarrow> filesystem \<Rightarrow> completed_process \<times> filesystem" where
  "tool_shell produced command e d fs =
     (\<lparr>returncode = 0, stdout = [], stderr = []\<rparr>,
      grow produced fs)"

definition fetch :: "string \<Rightarrow> filesystem \<Rightarrow> (exn + string) \<times> filesystem" where
  "fetch remote fs =
     (Inr (''/tmp/'' @ os_path_basename remote),
      AList.update (''/tmp/'' @ os_path_basename remote) (File ''CCO'') fs)"

definition all_outputs :: filesystem where
  "all_outputs =
     [(''/tmp/receptor_atoms.pdb'', File ''ATOM''),
      (''/tmp/receptor_cryst1FH.pdb'', File ''ATOM H''),
      (''/tmp/docking.pdbqt'', File ''MODEL 1''),
      (''/tmp/pose.sdf'', File ''M  END'')]"

definition lab_platform :: "filesystem \<Rightarrow> (string \<Rightarrow> bool) \<Rightarrow> platform" where
  "lab_platform produced accepted =
     \<lparr>shell = tool_shell produced,
      locale_decode = utf8_decode,
      download_from_gcs = fetch,
      upload_to_gcs = (\<lambda>p d n fs. Inr (accepted n))\<rparr>"

definition lab_files :: filesystem where
  "lab_files =
     [(''/tmp'', Dir), (''/app'', Dir), (''/tmp/lig.smi'', File ''CCO''),
      (''/tmp/rec.pdb'', File ''CCO''), (''/tmp/box.pdb'', File ''CCO'')]"

definition lab_result :: "filesystem \<Rightarrow> string \<Rightarrow> filesystem" where
  "lab_result produced a = grow produced lab_files @ [(''/tmp/receptor_cryst1.pdb'', File a)]"

definition outputs_without_pose :: filesystem where
  "outputs_without_pose =
     [(''/tmp/receptor_atoms.pdb'', File ''ATOM''),
      (''/tmp/receptor_cryst1FH.pdb'', File ''ATOM H''),
      (''/tmp/docking.pdbqt'', File ''MODEL 1'')]"

definition lab_all :: platform where
  "lab_all = lab_platform all_outputs (\<lambda>n. True)"

definition lab_partial :: platform where
  "lab_partial = lab_platform outputs_without_pose (\<lambda>n. n \<noteq> ''docking.pdbqt'')"

abbreviation (input) lab_job_stages :: "platform \<Rightarrow> (string \<times> string \<times> string) result" where
  "lab_job_stages ext \<equiv> run_stages ext ''in/lig.smi'' ''in/rec.pdb'' ''in/box.pdb'' app_world"

abbreviation (input) lab_job :: "platform \<Rightarrow> job_result result" where
  "lab_job ext \<equiv> run_job ext ''in/lig.smi'' ''in/rec.pdb'' ''in/box.pdb'' ''out'' app_world"

text \<open>The world of the laboratory once the inputs are downloaded.\<close>

definition lab_world :: world where
  "lab_world = app_world\<lparr>fsys := lab_files\<rparr>"

text \<open>
  A world with a ligand file outside the scratch root, and a platform on which the first
  tool of ligand preparation goes through and the second, \<^verbatim>\<open>mk_prepare_ligand.py\<close>,
  exits with status 1; the job run on the two.
\<close>

definition lig_world :: world where
  "lig_world = app_world\<lparr>fsys := fsys app_world @ [(''/app/lig.smi'', File ''CCO'')]\<rparr>"

definition late_shell ::
  "string \<Rightarrow> env \<Rightarrow> string \<Rightarrow> filesystem \<Rightarrow> completed_process \<times> filesystem" where
  "late_shell command e d fs =
     (if prefix ''micromamba run -n dwa_env mk_prepare_ligand.py '' command
      then (\<lparr>returncode = 1, stdout = [], stderr = ''boom''\<rparr>, fs)
      else (\<lparr>returncode = 0, stdout = [], stderr = []\<rparr>, fs))"

definition late_platform :: platform where
  "late_platform =
     \<lparr>shell = late_shell,
      locale_decode = utf8_decode,
      download_from_gcs = (\<lambda>p fs. (Inr p, fs)),
      upload_to_gcs = (\<lambda>p d n fs. Inr True)\<rparr>"

abbreviation (input) lig_job :: "job_result result" where
  "lig_job \<equiv> run_job late_platform ''/app/lig.smi'' ''/app/rec.pdb'' ''/app/box.pdb'' ''out'' lig_world"

text \<open>
  A shell that knows \<^verbatim>\<open>grep "CRYST1" FILE\<close> and nothing else, and the world with a
  given raw receptor next to the atoms extracted from it. Of the two raw receptors one
  has a unit-cell record that ends in blanks, as the fixed columns of the format have
  it, the other has no such record.
\<close>

definition grep_shell ::
  "string \<Rightarrow> env \<Rightarrow> string \<Rightarrow> filesystem \<Rightarrow> completed_process \<times> filesystem" where
  "grep_shell command e d fs =
     (let pre = ''grep '' @ dquote @ ''CRYST1'' @ dquote @ '' '' in
      if prefix pre command
      then (case stat fs (normpath (os_path_join d (drop (length pre) command))) of
              Some (File c) \<Rightarrow>
                (\<lparr>returncode = (if grep_lines ''CRYST1'' c = [] then 1 else 0),
                  stdout = grep_stdout ''CRYST1'' c, stderr = []\<rparr>, fs)
            | _ \<Rightarrow> (\<lparr>returncode = 2, stdout = [], stderr = ''grep: No such file or directory''\<rparr>, fs))
      else (\<lparr>returncode = 127, stdout = [], stderr = ''command not found''\<rparr>, fs))"

definition grep_platform :: platform where
  "grep_platform =
     \<lparr>shell = grep_shell,
      locale_decode = utf8_decode,
      download_from_gcs = (\<lambda>p fs. (Inr p, fs)),
      upload_to_gcs = (\<lambda>p d n fs. Inr True)\<rparr>"

definition cryst_record :: string where
  "cryst_record = ''CRYST1 50.0 60.0 70.0 90 90 90 P 1  ''"

definition atom_text :: string where
  "atom_text = ''ATOM 1 N MET A 1'' @ newline"

definition raw_receptor :: string where
  "raw_receptor = ''HEADER'' @ newline @ cryst_record @ newline @ atom_text @ ''HETATM 2 O HOH A 2'' @ newline"

definition plain_receptor :: string where
  "plain_receptor = ''HEADER'' @ newline @ atom_text"

definition merge_world :: "string \<Rightarrow> world" where
  "merge_world raw =
     \<lparr>fsys = [(''/tmp'', Dir), (''/app'', Dir), (''/tmp/rec.pdb'', File raw),
              (''/tmp/receptor_atoms.pdb'', File atom_text)],
      cwd = ''/app'',
      environ = [],
      undeletable = [],
      printed = [],
      calls = []\<rparr>"

abbreviation (input) merge_of :: "string \<Rightarrow> string result" where
  "merge_of raw \<equiv>
     extract_and_combine_cryst1 grep_platform ''/tmp/rec.pdb'' ''/tmp/receptor_atoms.pdb'' (merge_world raw)"

section \<open>Properties\<close>

subsection \<open>Text\<close>

lemma universal_newlines_id: "CHR 0x0D \<notin> set s \<Longrightarrow> universal_newlines s = s"
  by (induction s rule: universal_newlines.induct) (auto split: list.splits)

lemma utf8_decode_Nil [simp]: "utf8_decode [] = Some []"
  by (simp add: utf8_decode_def)

lemma drop_ws_subset: "set (drop_ws seqs s) \<subseteq> set s"
proof (induction seqs s rule: drop_ws.induct)
  case (1 seqs s)
  show ?case
  proof (cases "find (\<lambda>q. q \<noteq> [] \<and> prefix q s) seqs")
    case None
    then show ?thesis by (simp add: drop_ws.simps [of seqs s])
  next
    case (Some q)
    from "1" [OF Some] have "set (drop_ws seqs (drop (length q) s)) \<subseteq> set (drop (length q) s)" .
    also have "\<dots> \<subseteq> set s" by (rule set_drop_subset)
    finally show ?thesis using Some by (simp add: drop_ws.simps [of seqs s])
  qed
qed

lemma drop_ws_Nil [simp]: "drop_ws seqs [] = []"
  using drop_ws_subset [of seqs "[]"] by simp

lemma drop_ws_keeps:
  assumes "\<forall>q \<in> set seqs. x \<notin> set q"
  shows "x \<in> set s \<Longrightarrow> x \<in> set (drop_ws seqs s)"
  using assms
proof (induction seqs s rule: drop_ws.induct)
  case (1 seqs s)
  show ?case
  proof (cases "find (\<lambda>q. q \<noteq> [] \<and> prefix q s) seqs")
    case None
    with "1.prems" show ?thesis by (simp add: drop_ws.simps [of seqs s])
  next
    case (Some q)
    then have q: "q \<in> set seqs" and p: "prefix q s" by (auto simp: find_Some_iff)
    from p obtain r where s: "s = q @ r" by (auto simp: prefix_def)
    from q "1.prems"(2) have "x \<notin> set q" by blast
    with "1.prems"(1) s have "x \<in> set (drop (length q) s)" by simp
    from "1.IH" [OF Some this "1.prems"(2)] Some show ?thesis
      by (simp add: drop_ws.simps [of seqs s])
  qed
qed

lemma strip_subset: "set (strip s) \<subseteq> set s"
proof -
  have "set (strip s) \<subseteq> set (rstrip s)"
    unfolding strip_def lstrip_def by (rule drop_ws_subset)
  also have "\<dots> \<subseteq> set s"
    unfolding rstrip_def using drop_ws_subset [of "map rev whitespace" "rev s"] by simp
  finally show ?thesis .
qed

lemma strip_Nil [simp]: "strip [] = []"
  by (simp add: strip_def lstrip_def rstrip_def)

lemma strip_nonempty:
  assumes "x \<in> set s" and "\<forall>q \<in> set whitespace. x \<notin> set q"
  shows "strip s \<noteq> []"
proof -
  from assms(2) have r: "\<forall>q \<in> set (map rev whitespace). x \<notin> set q" by simp
  from assms(1) have "x \<in> set (rev s)" by simp
  from drop_ws_keeps [OF r this] have "x \<in> set (rstrip s)" by (simp add: rstrip_def)
  from drop_ws_keeps [OF assms(2) this] have "x \<in> set (strip s)" by (simp add: strip_def lstrip_def)
  then show ?thesis by auto
qed

lemma rstrip_snoc_newline: "rstrip (s @ [CHR 0x0A]) = rstrip s"
proof -
  have "find (\<lambda>q. q \<noteq> [] \<and> prefix q (CHR 0x0A # rev s)) (map rev whitespace) = Some [CHR 0x0A]"
    by (simp add: whitespace_def)
  then have "drop_ws (map rev whitespace) (CHR 0x0A # rev s) = drop_ws (map rev whitespace) (rev s)"
    by (simp add: drop_ws.simps [of _ "CHR 0x0A # rev s"])
  then show ?thesis by (simp add: rstrip_def)
qed

lemma strip_snoc_newline: "strip (s @ [CHR 0x0A]) = strip s"
  by (simp add: strip_def rstrip_snoc_newline)

lemma not_whitespace_C: "\<forall>q \<in> set whitespace. CHR ''C'' \<notin> set q"
  by (simp add: whitespace_def)

lemma strip_examples:
  "strip (''  CCO'' @ [CHR 0x0A]) = ''CCO''"
  "strip ([CHR 0xC2, CHR 0xA0] @ ''CRYST1 1.0'' @ [CHR 0xC2, CHR 0x85, CHR 0x0A]) = ''CRYST1 1.0''"
  "strip ''C C'' = ''C C''"
  by (simp_all add: strip_def lstrip_def rstrip_def whitespace_def drop_ws.simps)

subsection \<open>\<^verbatim>\<open>run_command\<close>\<close>

lemma run_command_checked:
  assumes "shell ext command (case env of None \<Rightarrow> environ w | Some e' \<Rightarrow> e') (cwd w) (fsys w) = (raw, fs')"
    and "text_mode ext raw = Inr r"
  shows "fst (run_command ext command True env w) =
           (if returncode r \<noteq> 0
            then Inl (CalledProcessError (returncode r) command (stdout r) (stderr r))
            else Inr r)"
  using assms by (simp add: run_command_def Let_def)

lemma run_command_unchecked:
  assumes "shell ext command (case env of None \<Rightarrow> environ w | Some e' \<Rightarrow> e') (cwd w) (fsys w) = (raw, fs')"
    and "text_mode ext raw = Inr r"
  shows "fst (run_command ext command False env w) = Inr r"
  using assms by (simp add: run_command_def Let_def)

lemma run_command_undecodable:
  assumes "shell ext command (case env of None \<Rightarrow> environ w | Some e' \<Rightarrow> e') (cwd w) (fsys w) = (raw, fs')"
    and "text_mode ext raw = Inl e"
  shows "fst (run_command ext command check env w) = Inl e"
  using assms by (simp add: run_command_def Let_def)

lemma text_mode_returncode: "text_mode ext raw = Inr r \<Longrightarrow> returncode r = returncode raw"
  by (auto simp: text_mode_def split: option.splits)

lemma text_mode_decoded:
  assumes "locale_decode ext (stdout raw) = Some out" and "locale_decode ext (stderr raw) = Some err"
  shows "text_mode ext raw =
           Inr \<lparr>returncode = returncode raw, stdout = universal_newlines out,
                stderr = universal_newlines err\<rparr>"
  using assms by (simp add: text_mode_def)

text \<open>
  Claim C7, with the condition it needs. Whatever the command, its environment and the
  world: when the bytes the process wrote to its two streams can be decoded and the
  process exits with a status other than zero, \<open>run_command\<close> with \<open>check\<close> true raises
  an error that carries the command text and the decoded error stream, and with \<open>check\<close>
  false it raises nothing and returns the completed process, with its exit status and
  the two decoded streams, to its caller.
\<close>

theorem run_command_check_policy:
  assumes "shell ext command (case env of None \<Rightarrow> environ w | Some e' \<Rightarrow> e') (cwd w) (fsys w) = (raw, fs')"
    and "locale_decode ext (stdout raw) = Some out"
    and "locale_decode ext (stderr raw) = Some err"
    and "returncode raw \<noteq> 0"
  shows "fst (run_command ext command True env w) =
           Inl (CalledProcessError (returncode raw) command
                  (universal_newlines out) (universal_newlines err))
         \<and> fst (run_command ext command False env w) =
             Inr \<lparr>returncode = returncode raw, stdout = universal_newlines out,
                  stderr = universal_newlines err\<rparr>"
  using assms(4) run_command_checked [OF assms(1) text_mode_decoded [OF assms(2,3)]]
    run_command_unchecked [OF assms(1) text_mode_decoded [OF assms(2,3)]]
  by simp

theorem run_command_check_policy_witness:
  "shell failing_platform ''false'' (environ app_world) (cwd app_world) (fsys app_world) =
     (\<lparr>returncode = 1, stdout = [], stderr = ''boom''\<rparr>, fsys app_world)
   \<and> locale_decode failing_platform [] = Some []
   \<and> locale_decode failing_platform ''boom'' = Some ''boom''
   \<and> fst (run_command failing_platform ''false'' True None app_world) =
       Inl (CalledProcessError 1 ''false'' [] ''boom'')
   \<and> fst (run_command failing_platform ''false'' False None app_world) =
       Inr \<lparr>returncode = 1, stdout = [], stderr = ''boom''\<rparr>"
proof -
  have sh: "shell failing_platform ''false''
              (case None of None \<Rightarrow> environ app_world | Some e' \<Rightarrow> e')
              (cwd app_world) (fsys app_world) =
            (\<lparr>returncode = 1, stdout = [], stderr = ''boom''\<rparr>, fsys app_world)"
    by (simp add: failing_platform_def failing_shell_def)
  have out: "locale_decode failing_platform (stdout \<lparr>returncode = 1, stdout = [], stderr = ''boom''\<rparr>) = Some []"
    by (simp add: failing_platform_def)
  have err: "locale_decode failing_platform (stderr \<lparr>returncode = 1, stdout = [], stderr = ''boom''\<rparr>) = Some ''boom''"
    by (simp add: failing_platform_def utf8_decode_def byte_def)
  have nz: "returncode \<lparr>returncode = 1, stdout = [], stderr = ''boom''\<rparr> \<noteq> 0"
    by simp
  show ?thesis
    using run_command_check_policy [OF sh out err nz] sh out err by simp
qed

text \<open>
  Claim C7 as it stands, for every command, does not hold. The command of this platform
  exits with status 1 after writing the single byte \<^verbatim>\<open>0xFF\<close> to its error stream; the
  locale decodes UTF-8. With \<open>check\<close> true the error raised is the decoder's and carries
  neither the command nor the error stream; with \<open>check\<close> false the call raises as well.
\<close>

theorem run_command_check_policy_counterexample:
  "shell garbled_platform ''false'' (environ app_world) (cwd app_world) (fsys app_world) =
     (\<lparr>returncode = 1, stdout = [], stderr = [CHR 0xFF]\<rparr>, fsys app_world)
   \<and> fst (run_command garbled_platform ''false'' True None app_world) =
       Inl (UnicodeDecodeError [CHR 0xFF])
   \<and> fst (run_command garbled_platform ''false'' False None app_world) =
       Inl (UnicodeDecodeError [CHR 0xFF])"
  by (simp add: run_command_def text_mode_def garbled_platform_def garbled_shell_def
        utf8_decode_def byte_def Let_def)

subsection \<open>\<^verbatim>\<open>clear_tmp\<close>\<close>

lemma abspath_absolute: "take 1 p = ''/'' \<Longrightarrow> os_path_abspath w p = normpath p"
  by (simp add: os_path_abspath_def os_path_join_def)

lemma join_tmp: "name \<noteq> [] \<Longrightarrow> CHR ''/'' \<notin> set name \<Longrightarrow> os_path_join ''/tmp'' name = ''/tmp/'' @ name"
  by (cases name) (auto simp: os_path_join_def)

lemma child_of_tmp_D: 
  assumes "child_of ''/tmp'' p" 
  obtains name where "p = ''/tmp/'' @ name" "name \<noteq> []" "CHR ''/'' \<notin> set name" "drop (length (dir_prefix ''/tmp'')) p = name"
proof -
  have d: "dir_prefix ''/tmp'' = ''/tmp/''" by (simp add: dir_prefix_def)
  from assms obtain name where n: "p = ''/tmp/'' @ name" and ne: "p \<noteq> ''/tmp/''" 
    unfolding child_of_def under_def d prefix_def by blast
  from assms have c: "CHR ''/'' \<notin> set (drop (length ''/tmp/'') p)"
    unfolding child_of_def d by blast
  have dr: "drop (length ''/tmp/'') p = name" unfolding n by simp
  from ne n have "name \<noteq> []" by auto
  with n c dr show ?thesis using that d by metis
qed

lemma not_under_sibling:
  assumes "CHR ''/'' \<notin> set name'"
  shows "\<not> under (''/tmp/'' @ name) (''/tmp/'' @ name')"
proof
  assume "under (''/tmp/'' @ name) (''/tmp/'' @ name')"
  then have "prefix ((''/tmp/'' @ name) @ ''/'') (''/tmp/'' @ name')"
    by (simp add: under_def dir_prefix_def)
  then obtain zs where "''/tmp/'' @ name' = ((''/tmp/'' @ name) @ ''/'') @ zs"
    unfolding prefix_def by blast
  then have "name' = name @ ''/'' @ zs" by simp
  with assms show False by simp
qed

lemma resolve_not_link:
  "(\<And>t. map_of fs p \<noteq> Some (Symlink t)) \<Longrightarrow> resolve (Suc n) fs p = Some p"
  by (auto split: option.splits node.splits)

lemma realpath_not_link:
  "(\<And>t. map_of fs p \<noteq> Some (Symlink t)) \<Longrightarrow> realpath fs p = Some p"
  unfolding realpath_def using resolve_not_link [of fs p 40] by (simp add: eval_nat_numeral)

lemma stat_not_link:
  "(\<And>t. map_of fs p \<noteq> Some (Symlink t)) \<Longrightarrow> stat fs p = map_of fs p"
  by (simp add: stat_def realpath_not_link)

lemma map_of_filter_keys:
  "map_of (filter (\<lambda>(x, _). P x) al) k = (if P k then map_of al k else None)"
  by (induction al) auto

lemma tmp_key_path:
  assumes "tmp_key k"
  shows "os_path_join ''/tmp'' (drop (length (dir_prefix ''/tmp'')) k) = k"
    and "os_path_abspath w k = k"
proof -
  from assms have c: "child_of ''/tmp'' k" and n: "normpath k = k" by (simp_all add: tmp_key_def)
  from c obtain name where k: "k = ''/tmp/'' @ name" and ne: "name \<noteq> []" and sl: "CHR ''/'' \<notin> set name"
    and dr: "drop (length (dir_prefix ''/tmp'')) k = name" by (rule child_of_tmp_D)
  show "os_path_join ''/tmp'' (drop (length (dir_prefix ''/tmp'')) k) = k"
    unfolding dr using join_tmp [OF ne sl] k by simp
  have "take 1 k = ''/''" unfolding k by simp
  then show "os_path_abspath w k = k" using abspath_absolute n by simp
qed

lemma clear_tmp_entry_cases:
  assumes "os_path_join ''/tmp'' name = k" and "os_path_abspath w k = k"
  shows "clear_tmp_entry ''/tmp'' name w =
     (case map_of (fsys w) k of
        Some Dir \<Rightarrow> (case shutil_rmtree k w of (Inl e, w1) \<Rightarrow> py_print (''Failed to delete '' @ k @ '': '' @ str_exn e) w1 | (Inr _, w1) \<Rightarrow> w1)
      | Some Special \<Rightarrow> w
      | None \<Rightarrow> w
      | Some _ \<Rightarrow> (case os_unlink k w of (Inl e, w1) \<Rightarrow> py_print (''Failed to delete '' @ k @ '': '' @ str_exn e) w1 | (Inr _, w1) \<Rightarrow> w1))"
proof (cases "map_of (fsys w) k")
  case None
  then show ?thesis using assms
    by (simp add: clear_tmp_entry_def os_path_isfile_def os_path_islink_def os_path_isdir_def stat_not_link)
next
  case (Some n)
  then show ?thesis using assms
    by (cases n) (simp_all add: clear_tmp_entry_def os_path_isfile_def os_path_islink_def os_path_isdir_def stat_not_link)
qed

lemma entry_frame:
  assumes "os_path_join ''/tmp'' name = k" and "os_path_abspath w k = k"
  shows "cwd (clear_tmp_entry ''/tmp'' name w) = cwd w"
    and "undeletable (clear_tmp_entry ''/tmp'' name w) = undeletable w"
    and "calls (clear_tmp_entry ''/tmp'' name w) = calls w @ attempt_of (fsys w) k"
    and "printed (clear_tmp_entry ''/tmp'' name w) =
           printed w @ (if removal_fails w k then [failure_line k] else [])"
  unfolding clear_tmp_entry_cases [OF assms]
  using assms(2)
  by (auto simp: os_unlink_def shutil_rmtree_def Let_def record_call_def py_print_def attempt_of_def
        removal_fails_def failure_line_def
      split: option.splits node.splits)

lemma entry_fsys:
  assumes "os_path_join ''/tmp'' name = k" and "os_path_abspath w k = k"
  shows "map_of (fsys (clear_tmp_entry ''/tmp'' name w)) k' =
           (if removal_fails w k \<or> map_of (fsys w) k = Some Special then map_of (fsys w) k'
            else if k' = k \<or> (map_of (fsys w) k = Some Dir \<and> under k k') then None
            else map_of (fsys w) k')"
  unfolding clear_tmp_entry_cases [OF assms]
  using assms(2)
  by (auto simp: os_unlink_def shutil_rmtree_def Let_def record_call_def py_print_def
        removal_fails_def map_of_filter_keys delete_conv
      split: option.splits node.splits)

lemma tmp_key_sibling:
  assumes "tmp_key k" and "tmp_key k'"
  shows "\<not> under k k'"
proof -
  from assms(1) have "child_of ''/tmp'' k" by (simp add: tmp_key_def)
  then obtain a where k: "k = ''/tmp/'' @ a" by (rule child_of_tmp_D)
  from assms(2) have "child_of ''/tmp'' k'" by (simp add: tmp_key_def)
  then obtain b where k': "k' = ''/tmp/'' @ b" and sl: "CHR ''/'' \<notin> set b" by (rule child_of_tmp_D)
  show ?thesis unfolding k k' using not_under_sibling [OF sl] .
qed

lemma entry_other:
  assumes "tmp_key k" and "tmp_key k'" and "k' \<noteq> k"
  shows "map_of (fsys (clear_tmp_entry ''/tmp'' (base k) w)) k' = map_of (fsys w) k'"
    and "removal_fails (clear_tmp_entry ''/tmp'' (base k) w) k' = removal_fails w k'"
proof -
  note p = tmp_key_path [OF assms(1)]
  show m: "map_of (fsys (clear_tmp_entry ''/tmp'' (base k) w)) k' = map_of (fsys w) k'"
    using entry_fsys [OF p(1) p(2), where k' = k'] tmp_key_sibling [OF assms(1,2)] assms(3) by simp
  show "removal_fails (clear_tmp_entry ''/tmp'' (base k) w) k' = removal_fails w k'"
    unfolding removal_fails_def m entry_frame(2) [OF p(1) p(2)] ..
qed

lemma entry_keeps_none:
  assumes "tmp_key k" and "map_of (fsys w) k' = None"
  shows "map_of (fsys (clear_tmp_entry ''/tmp'' (base k) w)) k' = None"
  using entry_fsys [OF tmp_key_path [OF assms(1)], where k' = k'] assms(2) by simp

lemma loop_frame:
  assumes "\<forall>k \<in> set ks. tmp_key k"
  shows "cwd (clear_tmp_loop ''/tmp'' (map base ks) w) = cwd w
       \<and> undeletable (clear_tmp_loop ''/tmp'' (map base ks) w) = undeletable w
       \<and> set (calls w) \<subseteq> set (calls (clear_tmp_loop ''/tmp'' (map base ks) w))
       \<and> set (printed w) \<subseteq> set (printed (clear_tmp_loop ''/tmp'' (map base ks) w))"
  using assms
proof (induction ks arbitrary: w)
  case Nil
  then show ?case by simp
next
  case (Cons k ks)
  then have tk: "tmp_key k" and rest: "\<forall>k \<in> set ks. tmp_key k" by simp_all
  note p = tmp_key_path [OF tk]
  note f = entry_frame [OF p(1) p(2)]
  from Cons.IH [OF rest, of "clear_tmp_entry ''/tmp'' (base k) w"]
  show ?case by (auto simp: f)
qed

lemma loop_keeps_none:
  assumes "\<forall>k \<in> set ks. tmp_key k" and "map_of (fsys w) k' = None"
  shows "map_of (fsys (clear_tmp_loop ''/tmp'' (map base ks) w)) k' = None"
  using assms
proof (induction ks arbitrary: w)
  case Nil
  then show ?case by simp
next
  case (Cons k ks)
  then have tk: "tmp_key k" and rest: "\<forall>k \<in> set ks. tmp_key k" by simp_all
  from Cons.IH [OF rest entry_keeps_none [OF tk Cons.prems(2)]]
  show ?case by simp
qed

lemma loop_entries:
  assumes "\<forall>k \<in> set ks. tmp_key k" and "k' \<in> set ks"
  shows "set (attempt_of (fsys w) k') \<subseteq> set (calls (clear_tmp_loop ''/tmp'' (map base ks) w))
       \<and> (if removal_fails w k'
           then failure_line k' \<in> set (printed (clear_tmp_loop ''/tmp'' (map base ks) w))
           else map_of (fsys w) k' \<noteq> Some Special \<longrightarrow>
                map_of (fsys (clear_tmp_loop ''/tmp'' (map base ks) w)) k' = None)"
  using assms
proof (induction ks arbitrary: w)
  case Nil
  then show ?case by simp
next
  case (Cons k ks)
  then have tk: "tmp_key k" and rest: "\<forall>k \<in> set ks. tmp_key k" by simp_all
  note p = tmp_key_path [OF tk]
  note f = entry_frame [OF p(1) p(2)]
  let ?w2 = "clear_tmp_entry ''/tmp'' (base k) w"
  show ?case
  proof (cases "k' = k")
    case True
    have a: "set (attempt_of (fsys w) k) \<subseteq> set (calls ?w2)" by (simp add: f)
    have b: "removal_fails w k \<Longrightarrow> failure_line k \<in> set (printed ?w2)" by (simp add: f)
    have c: "\<not> removal_fails w k \<Longrightarrow> map_of (fsys w) k \<noteq> Some Special \<Longrightarrow> map_of (fsys ?w2) k = None"
      using entry_fsys [OF p(1) p(2), where k' = k] by simp
    from loop_frame [OF rest, of ?w2] loop_keeps_none [OF rest, of ?w2 k] a b c True
    show ?thesis by auto
  next
    case False
    with Cons.prems have in_rest: "k' \<in> set ks" by simp
    with rest have tk': "tmp_key k'" by simp
    note o = entry_other [OF tk tk' False, of w]
    have att: "attempt_of (fsys ?w2) k' = attempt_of (fsys w) k'"
      by (simp add: attempt_of_def o(1))
    from Cons.IH [OF rest in_rest, of ?w2] show ?thesis
      by (simp add: o att)
  qed
qed

lemma normpath_tmp [simp]: "normpath ''/tmp'' = ''/tmp''"
  by (simp add: normpath_def join_comps_def)

lemma clear_tmp_unfold:
  assumes "map_of (fsys w) ''/tmp'' = Some Dir"
  shows "clear_tmp w =
     (Inr (), clear_tmp_loop ''/tmp''
        (map (drop (length (dir_prefix ''/tmp''))) (filter (child_of ''/tmp'') (map fst (fsys w)))) w)"
  using assms
  by (simp add: clear_tmp_def os_listdir_def abspath_absolute realpath_not_link Let_def)

text \<open>
  Claim C8. When \<^verbatim>\<open>/tmp\<close> is a directory, \<open>clear_tmp\<close> returns without raising, and
  for every file, symbolic link and directory directly under \<^verbatim>\<open>/tmp\<close> a removal is
  attempted (\<^verbatim>\<open>os.unlink\<close> for a file or link, \<^verbatim>\<open>shutil.rmtree\<close> for a directory).
  An entry whose removal fails leaves a \<^verbatim>\<open>Failed to delete\<close> line in the output and
  stops nothing: every entry whose removal does not fail is gone afterwards, wherever
  it comes in the listing.
\<close>

theorem clear_tmp_best_effort:
  assumes "map_of (fsys w) ''/tmp'' = Some Dir"
    and "\<forall>k \<in> set (map fst (fsys w)). normpath k = k"
  shows "fst (clear_tmp w) = Inr ()
       \<and> (\<forall>k n. map_of (fsys w) k = Some n \<and> child_of ''/tmp'' k \<and> n \<noteq> Special \<longrightarrow>
            (if n = Dir then Rmtree k else Unlink k) \<in> set (calls (snd (clear_tmp w)))
          \<and> (if removal_fails w k
               then failure_line k \<in> set (printed (snd (clear_tmp w)))
               else map_of (fsys (snd (clear_tmp w))) k = None))"
proof -
  let ?ks = "filter (child_of ''/tmp'') (map fst (fsys w))"
  let ?w' = "clear_tmp_loop ''/tmp'' (map (drop (length (dir_prefix ''/tmp''))) ?ks) w"
  have u: "clear_tmp w = (Inr (), ?w')" by (rule clear_tmp_unfold [OF assms(1)])
  have keys: "\<forall>k \<in> set ?ks. tmp_key k" using assms(2) by (auto simp: tmp_key_def)
  have "(if n = Dir then Rmtree k else Unlink k) \<in> set (calls ?w')
      \<and> (if removal_fails w k then failure_line k \<in> set (printed ?w')
          else map_of (fsys ?w') k = None)"
    if m: "map_of (fsys w) k = Some n" and c: "child_of ''/tmp'' k" and n: "n \<noteq> Special" for k n
  proof -
    from m have "k \<in> set (map fst (fsys w))" by (metis map_of_eq_None_iff option.distinct(1) set_map)
    with c have "k \<in> set ?ks" by simp
    from loop_entries [OF keys this, of w] m n show ?thesis
      by (cases n) (auto simp: attempt_of_def)
  qed
  then show ?thesis unfolding u by auto
qed

theorem clear_tmp_best_effort_witness:
  "map_of (fsys tmp_world) ''/tmp'' = Some Dir
   \<and> list_all (\<lambda>k. normpath k = k) (map fst (fsys tmp_world))
   \<and> fst (clear_tmp tmp_world) = Inr ()
   \<and> Unlink ''/tmp/a.sdf'' \<in> set (calls (snd (clear_tmp tmp_world)))
   \<and> map_of (fsys (snd (clear_tmp tmp_world))) ''/tmp/a.sdf'' = None
   \<and> removal_fails tmp_world ''/tmp/keep.lock''
   \<and> failure_line ''/tmp/keep.lock'' \<in> set (printed (snd (clear_tmp tmp_world)))
   \<and> map_of (fsys (snd (clear_tmp tmp_world))) ''/tmp/old'' = None
   \<and> map_of (fsys (snd (clear_tmp tmp_world))) ''/tmp/link'' = None"
proof -
  have h1: "map_of (fsys tmp_world) ''/tmp'' = Some Dir" by (simp add: tmp_world_def)
  have h2: "\<forall>k \<in> set (map fst (fsys tmp_world)). normpath k = k"
    by (simp add: tmp_world_def normpath_def join_comps_def)
  note t = clear_tmp_best_effort [OF h1 h2]
  have c: "child_of ''/tmp'' ''/tmp/a.sdf''" "child_of ''/tmp'' ''/tmp/keep.lock''"
     "child_of ''/tmp'' ''/tmp/old''" "child_of ''/tmp'' ''/tmp/link''"
    by (simp_all add: child_of_def under_def dir_prefix_def)
  have m: "map_of (fsys tmp_world) ''/tmp/a.sdf'' = Some (File ''CCO'')"
     "map_of (fsys tmp_world) ''/tmp/keep.lock'' = Some (File [])"
     "map_of (fsys tmp_world) ''/tmp/old'' = Some Dir"
     "map_of (fsys tmp_world) ''/tmp/link'' = Some (Symlink ''/app/data'')"
    by (simp_all add: tmp_world_def)
  have r: "\<not> removal_fails tmp_world ''/tmp/a.sdf''" "removal_fails tmp_world ''/tmp/keep.lock''"
     "\<not> removal_fails tmp_world ''/tmp/old''" "\<not> removal_fails tmp_world ''/tmp/link''"
    by (simp_all add: removal_fails_def tmp_world_def under_def dir_prefix_def)
  note e = t [THEN conjunct2, rule_format]
  from t have e0: "fst (clear_tmp tmp_world) = Inr ()" by (rule conjunct1)
  have e1: "Unlink ''/tmp/a.sdf'' \<in> set (calls (snd (clear_tmp tmp_world)))
          \<and> map_of (fsys (snd (clear_tmp tmp_world))) ''/tmp/a.sdf'' = None"
    using e [of "''/tmp/a.sdf''" "File ''CCO''"] m(1) c(1) r(1) by simp
  have e2: "failure_line ''/tmp/keep.lock'' \<in> set (printed (snd (clear_tmp tmp_world)))"
    using e [of "''/tmp/keep.lock''" "File []"] m(2) c(2) r(2) by simp
  have e3: "map_of (fsys (snd (clear_tmp tmp_world))) ''/tmp/old'' = None"
    using e [of "''/tmp/old''" Dir] m(3) c(3) r(3) by simp
  have e4: "map_of (fsys (snd (clear_tmp tmp_world))) ''/tmp/link'' = None"
    using e [of "''/tmp/link''" "Symlink ''/app/data''"] m(4) c(4) r(4) by simp
  from h2 have h2': "list_all (\<lambda>k. normpath k = k) (map fst (fsys tmp_world))"
    by (simp only: list_all_iff)
  from h1 h2' e0 e1 e2 e3 e4 r(2) show ?thesis by blast
qed

subsection \<open>The stages and \<^verbatim>\<open>run_job\<close>\<close>

lemma run_docking_path:
  "fst (run_docking ext ligand_prepared receptor_prepared w) = Inr p \<Longrightarrow> p = ''/tmp/docking.pdbqt''"
  by (auto simp: run_docking_def Let_def split: prod.splits sum.splits)

lemma export_pose_path:
  "fst (export_pose ext docking w) = Inr p \<Longrightarrow> p = ''/tmp/pose.sdf''"
  by (auto simp: export_pose_def Let_def split: prod.splits sum.splits)

lemma add_protomers_path:
  "fst (add_protomers ext ligand w) = Inr p \<Longrightarrow> p = ''/tmp/ligand_with_protomers.sdf''"
  by (auto simp: add_protomers_def Let_def split: prod.splits sum.splits)

lemma prepare_ligand_path:
  "fst (prepare_ligand ext ligand w) = Inr p \<Longrightarrow> p = ''/tmp/ligand_protomers/_i0.pdbqt''"
  by (auto simp: prepare_ligand_def Let_def split: prod.splits sum.splits)

lemma add_hydrogens_and_optimize_path:
  "fst (add_hydrogens_and_optimize ext receptor_cryst1 w) = Inr p \<Longrightarrow> p = ''/tmp/receptor_cryst1FH.pdb''"
  by (auto simp: add_hydrogens_and_optimize_def Let_def split: prod.splits sum.splits)

lemma add_hydrogens_and_optimize_pair:
  "add_hydrogens_and_optimize ext receptor_cryst1 w = (Inr p, w') \<Longrightarrow> p = ''/tmp/receptor_cryst1FH.pdb''"
  using add_hydrogens_and_optimize_path [of ext receptor_cryst1 w p] by simp

lemma prepare_receptor_path:
  "fst (prepare_receptor ext receptor box w) = Inr p \<Longrightarrow>
     p = (''/tmp/receptor_cryst1FH.pdb'', ''/tmp/receptor_prepared.pdbqt'')"
  unfolding prepare_receptor_def Let_def
  by (auto split: prod.splits sum.splits dest: add_hydrogens_and_optimize_pair)

lemma retrieve_gcs_files_loop_length:
  "retrieve_gcs_files_loop ext remote_paths local_files w = (Inr ps, w') \<Longrightarrow>
     length ps = length local_files + length remote_paths"
  by (induction remote_paths arbitrary: local_files w) (auto split: prod.splits sum.splits)

lemma run_docking_pair:
  "run_docking ext l r w = (Inr p, w') \<Longrightarrow> p = ''/tmp/docking.pdbqt''"
  using run_docking_path [of ext l r w p] by simp

lemma export_pose_pair:
  "export_pose ext d w = (Inr p, w') \<Longrightarrow> p = ''/tmp/pose.sdf''"
  using export_pose_path [of ext d w p] by simp

lemma prepare_receptor_pair:
  "prepare_receptor ext r b w = (Inr (t, rp), w') \<Longrightarrow>
     t = ''/tmp/receptor_cryst1FH.pdb'' \<and> rp = ''/tmp/receptor_prepared.pdbqt''"
  using prepare_receptor_path [of ext r b w "(t, rp)"] by simp

lemma run_stages_paths:
  assumes "run_stages ext ligand receptor box w = (Inr (docking, pose, target), w1)"
  shows "docking = ''/tmp/docking.pdbqt'' \<and> pose = ''/tmp/pose.sdf''
       \<and> target = ''/tmp/receptor_cryst1FH.pdb''"
  using assms unfolding run_stages_def
  by (auto split: prod.splits sum.splits
           dest: run_docking_pair export_pose_pair prepare_receptor_pair)

lemma py_print_frame [simp]:
  "fsys (py_print s w) = fsys w" "cwd (py_print s w) = cwd w" "environ (py_print s w) = environ w"
  "undeletable (py_print s w) = undeletable w" "calls (py_print s w) = calls w"
  "printed (py_print s w) = printed w @ [s]"
  by (simp_all add: py_print_def)

lemma record_call_frame [simp]:
  "fsys (record_call c w) = fsys w" "cwd (record_call c w) = cwd w"
  "environ (record_call c w) = environ w" "undeletable (record_call c w) = undeletable w"
  "calls (record_call c w) = calls w @ [c]" "printed (record_call c w) = printed w"
  by (simp_all add: record_call_def)

lemma exists_frame:
  "fsys w' = fsys w \<Longrightarrow> cwd w' = cwd w \<Longrightarrow> os_path_exists w' p = os_path_exists w p"
  by (simp add: os_path_exists_def os_path_abspath_def)

lemma exists_print [simp]:
  "os_path_exists (py_print s w) p = os_path_exists w p"
  "os_path_exists (record_call c w) p = os_path_exists w p"
  by (simp_all add: os_path_exists_def os_path_abspath_def)

lemma uploaded_print [simp]:
  "uploaded ext d (py_print s w) f = uploaded ext d w f"
  "uploaded ext d (record_call c w) f = uploaded ext d w f"
  by (simp_all add: uploaded_def)

lemma upload_raises_print [simp]:
  "upload_raises ext d (py_print s w) f = upload_raises ext d w f"
  "upload_raises ext d (record_call c w) f = upload_raises ext d w f"
  by (simp_all add: upload_raises_def)

lemma upload_loop_frame:
  "fsys (snd (upload_loop ext d files s fl w)) = fsys w \<and> cwd (snd (upload_loop ext d files s fl w)) = cwd w"
proof (induction files arbitrary: s fl w)
  case Nil
  then show ?case by simp
next
  case (Cons f files)
  obtain p n where f: "f = (p, n)" by (cases f)
  show ?case unfolding f
    by (simp add: Cons.IH split: sum.splits)
qed

lemma upload_loop_result:
  assumes "\<forall>f \<in> set files. \<not> upload_raises ext d w f"
  shows "fst (upload_loop ext d files s fl w) =
           Inr (s @ map snd (filter (uploaded ext d w) files),
                fl @ map snd (filter (\<lambda>f. \<not> uploaded ext d w f) files))
       \<and> calls (snd (upload_loop ext d files s fl w)) =
           calls w @ map (\<lambda>f. Upload (fst f) d (snd f)) (filter (\<lambda>f. os_path_exists w (fst f)) files)"
  using assms
proof (induction files arbitrary: s fl w)
  case Nil
  then show ?case by simp
next
  case (Cons f files)
  obtain p n where f: "f = (p, n)" by (cases f)
  from Cons.prems have nr: "\<not> upload_raises ext d w (p, n)"
    and rest: "\<forall>f \<in> set files. \<not> upload_raises ext d w f" by (simp_all add: f)
  show ?case
  proof (cases "os_path_exists w p")
    case False
    from rest have "\<forall>f \<in> set files. \<not> upload_raises ext d (py_print (''File not found: '' @ p) w) f"
      by (simp only: upload_raises_print)
    from Cons.IH [OF this, of s "fl @ [n]"] False show ?thesis
      by (simp add: f uploaded_def del: append.simps)
  next
    case True
    from rest have r: "\<forall>f \<in> set files. \<not> upload_raises ext d (record_call (Upload p d n) w) f"
      by (simp only: upload_raises_print)
    from nr True obtain ok where u: "upload_to_gcs ext p d n (fsys w) = Inr ok"
      by (cases "upload_to_gcs ext p d n (fsys w)") (simp_all add: upload_raises_def)
    show ?thesis
    proof (cases ok)
      case True
      from Cons.IH [OF r, of "s @ [n]" fl] \<open>os_path_exists w p\<close> u True show ?thesis
        by (simp add: f uploaded_def)
    next
      case False
      from Cons.IH [OF r, of s "fl @ [n]"] \<open>os_path_exists w p\<close> u False show ?thesis
        by (simp add: f uploaded_def)
    qed
  qed
qed

lemma upload_loop_returns:
  assumes "fst (upload_loop ext d files s fl w) = Inr r"
  shows "\<forall>f \<in> set files. \<not> upload_raises ext d w f"
  using assms
proof (induction files arbitrary: s fl w)
  case Nil
  then show ?case by simp
next
  case (Cons f files)
  obtain p n where f: "f = (p, n)" by (cases f)
  show ?case
  proof (cases "os_path_exists w p")
    case False
    from Cons.prems False
    have "fst (upload_loop ext d files s (fl @ [n]) (py_print (''File not found: '' @ p) w)) = Inr r"
      by (simp add: f del: append.simps)
    from Cons.IH [OF this] False show ?thesis
      by (simp add: f upload_raises_def)
  next
    case True
    from Cons.prems True obtain ok where u: "upload_to_gcs ext p d n (fsys w) = Inr ok"
      by (cases "upload_to_gcs ext p d n (fsys w)") (simp_all add: f)
    from Cons.prems True u have
      "fst (upload_loop ext d files (if ok then s @ [n] else s) (if ok then fl else fl @ [n])
             (record_call (Upload p d n) w)) = Inr r"
      by (simp add: f split: if_splits)
    from Cons.IH [OF this] u show ?thesis
      by (simp add: f upload_raises_def)
  qed
qed

lemma basename_deliverables:
  "os_path_basename ''/tmp/docking.pdbqt'' = ''docking.pdbqt''"
  "os_path_basename ''/tmp/pose.sdf'' = ''pose.sdf''"
  "os_path_basename ''/tmp/receptor_cryst1FH.pdb'' = ''receptor_cryst1FH.pdb''"
  by (simp_all add: os_path_basename_def)

lemma publish_unfold:
  "fst (publish ext dirname ''/tmp/docking.pdbqt'' ''/tmp/pose.sdf'' ''/tmp/receptor_cryst1FH.pdb'' w) =
     (case fst (upload_loop ext dirname deliverables [] [] w) of
        Inl e \<Rightarrow> Inl e
      | Inr (s, f) \<Rightarrow> Inr (summary s f))"
  unfolding publish_def basename_deliverables Let_def deliverables_def [symmetric]
  by (simp add: summary_def split: prod.splits sum.splits)

lemma publish_frame:
  "fsys (snd (publish ext dirname docking pose target w)) = fsys w"
  "cwd (snd (publish ext dirname docking pose target w)) = cwd w"
  using upload_loop_frame [of ext dirname
      "[(docking, os_path_basename docking), (pose, os_path_basename pose), (target, os_path_basename target)]"
      "[]" "[]" w]
  unfolding publish_def Let_def
  by (auto split: prod.splits sum.splits)

lemma run_job_after_stages:
  assumes "run_stages ext ligand receptor box w = (Inr x, w1)"
  shows "fst (run_job ext ligand receptor box dirname w) =
           (case fst (upload_loop ext dirname deliverables [] [] w1) of
              Inl e \<Rightarrow> Inl (RuntimeError (''Workflow failed: '' @ str_exn e) e)
            | Inr (s, f) \<Rightarrow> Inr (summary s f))"
proof -
  obtain d p t where x: "x = (d, p, t)" by (cases x)
  from run_stages_paths [OF assms [unfolded x]]
  have paths: "d = ''/tmp/docking.pdbqt''" "p = ''/tmp/pose.sdf''" "t = ''/tmp/receptor_cryst1FH.pdb''"
    by simp_all
  have "fst (run_job ext ligand receptor box dirname w) =
          (case fst (publish ext dirname d p t w1) of
             Inl e \<Rightarrow> Inl (RuntimeError (''Workflow failed: '' @ str_exn e) e)
           | Inr res \<Rightarrow> Inr res)"
    unfolding run_job_def assms x by (simp split: prod.splits sum.splits)
  then show ?thesis unfolding paths publish_unfold by (simp split: sum.splits)
qed

lemma run_job_returns_D:
  assumes "fst (run_job ext ligand receptor box dirname w) = Inr res"
  obtains x w1 where "run_stages ext ligand receptor box w = (Inr x, w1)"
proof -
  from assms have "\<exists>x w1. run_stages ext ligand receptor box w = (Inr x, w1)"
    unfolding run_job_def by (auto split: prod.splits sum.splits)
  then show ?thesis using that by blast
qed

lemma partition_names:
  assumes "distinct (map snd xs)"
  shows "distinct (map snd (filter P xs) @ map snd (filter (\<lambda>x. \<not> P x) xs))
       \<and> set (map snd (filter P xs) @ map snd (filter (\<lambda>x. \<not> P x) xs)) = set (map snd xs)"
  using assms
proof (induction xs)
  case Nil
  then show ?case by simp
next
  case (Cons x xs)
  then have d: "snd x \<notin> snd ` set xs" and IH: "distinct (map snd (filter P xs) @ map snd (filter (\<lambda>x. \<not> P x) xs))"
    "set (map snd (filter P xs) @ map snd (filter (\<lambda>x. \<not> P x) xs)) = set (map snd xs)"
    by simp_all
  from IH(2) d have nin: "snd x \<notin> set (map snd (filter P xs) @ map snd (filter (\<lambda>x. \<not> P x) xs))"
    by simp
  show ?case using IH nin by (cases "P x") auto
qed

lemma summary_fields:
  "outputs (summary s f) = s" "failed_list (summary s f) = f"
  "status (summary s f) = (if f \<noteq> [] then ''partial_success'' else ''success'')"
  "failed_files (summary s f) = (if f \<noteq> [] then Some f else None)"
  by (simp_all add: summary_def failed_list_def)

lemma run_job_result:
  assumes stages: "run_stages ext ligand receptor box w = (Inr x, w1)"
    and noraise: "\<forall>f \<in> set deliverables. \<not> upload_raises ext dirname w1 f"
  shows "fst (run_job ext ligand receptor box dirname w) =
           Inr (summary (map snd (filter (uploaded ext dirname w1) deliverables))
                        (map snd (filter (\<lambda>f. \<not> uploaded ext dirname w1 f) deliverables)))"
  unfolding run_job_after_stages [OF stages]
  using upload_loop_result [OF noraise, of "[]" "[]"] by simp

lemma run_job_result_D:
  assumes "fst (run_job ext ligand receptor box dirname w) = Inr res"
  obtains x w1 where "run_stages ext ligand receptor box w = (Inr x, w1)"
    and "res = summary (map snd (filter (uploaded ext dirname w1) deliverables))
                        (map snd (filter (\<lambda>f. \<not> uploaded ext dirname w1 f) deliverables))"
proof -
  from assms obtain x w1 where st: "run_stages ext ligand receptor box w = (Inr x, w1)"
    by (rule run_job_returns_D)
  from assms [unfolded run_job_after_stages [OF st]]
  obtain r where "fst (upload_loop ext dirname deliverables [] [] w1) = Inr r"
    by (cases "fst (upload_loop ext dirname deliverables [] [] w1)") simp_all
  then have "\<forall>f \<in> set deliverables. \<not> upload_raises ext dirname w1 f"
    by (rule upload_loop_returns)
  from run_job_result [OF st this] assms show ?thesis using that [OF st] by simp
qed

text \<open>
  Claim C10. Whenever \<open>run_job\<close> returns a result, its \<^verbatim>\<open>outputs\<close> and its
  \<^verbatim>\<open>failed_files\<close> (empty when the key is absent) have no name in common and no name
  twice, and together they hold exactly the three base names
  \<^verbatim>\<open>docking.pdbqt\<close>, \<^verbatim>\<open>pose.sdf\<close> and \<^verbatim>\<open>receptor_cryst1FH.pdb\<close>.
\<close>

theorem run_job_accounts_for_deliverables:
  assumes "fst (run_job ext ligand receptor box dirname w) = Inr res"
  shows "distinct (outputs res @ failed_list res)
       \<and> set (outputs res @ failed_list res) = {''docking.pdbqt'', ''pose.sdf'', ''receptor_cryst1FH.pdb''}"
proof -
  from assms obtain x w1 where
    "run_stages ext ligand receptor box w = (Inr x, w1)" and
    res: "res = summary (map snd (filter (uploaded ext dirname w1) deliverables))
                        (map snd (filter (\<lambda>f. \<not> uploaded ext dirname w1 f) deliverables))"
    by (rule run_job_result_D)
  have d: "distinct (map snd deliverables)" by (simp add: deliverables_def)
  have s: "set (map snd deliverables) = {''docking.pdbqt'', ''pose.sdf'', ''receptor_cryst1FH.pdb''}"
    by (simp add: deliverables_def)
  from partition_names [OF d, of "uploaded ext dirname w1"] show ?thesis
    unfolding res summary_fields s by blast
qed

text \<open>
  Claim C3. Let the stages have run through, and let no upload raise. If one of the three
  deliverables is missing from disk at publish time, or is there and its upload answers
  \<^verbatim>\<open>False\<close>, then \<open>run_job\<close> returns a result with status
  \<^verbatim>\<open>partial_success\<close> whose \<^verbatim>\<open>failed_files\<close> holds that deliverable's name; and the
  loop has gone over all three: \<^verbatim>\<open>outputs\<close> holds exactly the names of the deliverables
  that exist and were accepted, \<^verbatim>\<open>failed_files\<close> exactly the others, each judged on its
  own.
\<close>

theorem publish_failure_is_partial:
  assumes stages: "run_stages ext ligand receptor box w = (Inr x, w1)"
    and noraise: "\<forall>f \<in> set deliverables. \<not> upload_raises ext dirname w1 f"
    and mem: "(p, n) \<in> set deliverables"
    and bad: "\<not> os_path_exists w1 p \<or> upload_to_gcs ext p dirname n (fsys w1) = Inr False"
  shows "\<exists>res fl. fst (run_job ext ligand receptor box dirname w) = Inr res
       \<and> status res = ''partial_success'' \<and> failed_files res = Some fl \<and> n \<in> set fl
       \<and> outputs res = map snd (filter (uploaded ext dirname w1) deliverables)
       \<and> fl = map snd (filter (\<lambda>f. \<not> uploaded ext dirname w1 f) deliverables)"
proof -
  let ?s = "map snd (filter (uploaded ext dirname w1) deliverables)"
  let ?f = "map snd (filter (\<lambda>f. \<not> uploaded ext dirname w1 f) deliverables)"
  from bad have "\<not> uploaded ext dirname w1 (p, n)" by (auto simp: uploaded_def)
  with mem have "(p, n) \<in> set (filter (\<lambda>f. \<not> uploaded ext dirname w1 f) deliverables)" by simp
  then have n: "n \<in> set ?f" by force
  have ne: "?f \<noteq> []"
  proof
    assume "?f = []"
    with n show False by simp
  qed
  from run_job_result [OF stages noraise]
  have "fst (run_job ext ligand receptor box dirname w) = Inr (summary ?s ?f)" .
  with n ne show ?thesis by (simp add: summary_fields)
qed

text \<open>
  Claim C4. Let the stages have run through. If all three deliverables exist on disk at
  publish time and every upload answers \<^verbatim>\<open>True\<close>, then \<open>run_job\<close> returns a result
  with status \<^verbatim>\<open>success\<close>, whose \<^verbatim>\<open>outputs\<close> are the three names and which has no
  \<^verbatim>\<open>failed_files\<close> key.
\<close>

theorem publish_all_is_success:
  assumes stages: "run_stages ext ligand receptor box w = (Inr x, w1)"
    and ok: "\<forall>f \<in> set deliverables. uploaded ext dirname w1 f"
  shows "fst (run_job ext ligand receptor box dirname w) =
           Inr \<lparr>status = ''success'',
                outputs = [''docking.pdbqt'', ''pose.sdf'', ''receptor_cryst1FH.pdb''],
                failed_files = None\<rparr>"
proof -
  from ok have noraise: "\<forall>f \<in> set deliverables. \<not> upload_raises ext dirname w1 f"
    by (auto simp: uploaded_def upload_raises_def)
  from ok have s: "filter (uploaded ext dirname w1) deliverables = deliverables" by simp
  from ok have f: "filter (\<lambda>f. \<not> uploaded ext dirname w1 f) deliverables = []" by simp
  show ?thesis unfolding run_job_result [OF stages noraise] s f
    by (simp add: summary_def deliverables_def)
qed

subsection \<open>A run in the laboratory\<close>

lemmas path_eval = os_path_abspath_def os_path_join_def normpath_def join_comps_def
  stat_def realpath_def eval_nat_numeral parent_def

lemma lab_clear: "clear_tmp app_world = (Inr (), app_world)"
  by (simp add: clear_tmp_def os_listdir_def app_world_def path_eval child_of_def under_def dir_prefix_def)

lemma lab_retrieve:
  "fst (retrieve_gcs_files (lab_platform P acc) [''in/lig.smi'', ''in/rec.pdb'', ''in/box.pdb''] app_world)
     = Inr [''/tmp/lig.smi'', ''/tmp/rec.pdb'', ''/tmp/box.pdb'']"
  "fsys (snd (retrieve_gcs_files (lab_platform P acc) [''in/lig.smi'', ''in/rec.pdb'', ''in/box.pdb''] app_world))
     = lab_files"
  "cwd (snd (retrieve_gcs_files (lab_platform P acc) [''in/lig.smi'', ''in/rec.pdb'', ''in/box.pdb''] app_world))
     = ''/app''"
  "environ (snd (retrieve_gcs_files (lab_platform P acc) [''in/lig.smi'', ''in/rec.pdb'', ''in/box.pdb''] app_world))
     = []"
  by (simp_all add: retrieve_gcs_files_def lab_platform_def fetch_def app_world_def os_path_basename_def
        lab_files_def record_call_def)

lemma lab_run_command:
  "run_command (lab_platform P acc) cmd chk env w =
     (Inr \<lparr>returncode = 0, stdout = [], stderr = []\<rparr>,
      py_print [] (record_call (Run cmd (case env of None \<Rightarrow> environ w | Some e \<Rightarrow> e) (cwd w))
                     (w\<lparr>fsys := grow P (fsys w)\<rparr>)))"
  by (simp add: run_command_def text_mode_def lab_platform_def tool_shell_def Let_def)

lemma map_of_grow:
  "map_of (grow P fs) k = (case map_of fs k of Some v \<Rightarrow> Some v | None \<Rightarrow> map_of P k)"
proof (cases "map_of fs k")
  case None
  have "map_of (filter (\<lambda>(k, _). map_of fs k = None) P) k = map_of P k"
    using None by (induction P) auto
  with None show ?thesis by (simp add: grow_def map_add_def)
next
  case (Some v)
  then show ?thesis by (simp add: grow_def map_add_def)
qed

lemma grow_fixed:
  assumes "\<forall>k \<in> set (map fst P). map_of fs k \<noteq> None"
  shows "grow P fs = fs"
proof -
  have "filter (\<lambda>(k, _). map_of fs k = None) P = []"
    using assms by (auto simp: filter_empty_conv)
  then show ?thesis by (simp add: grow_def)
qed

lemma grow_idem [simp]: "grow P (grow P fs) = grow P fs"
proof (rule grow_fixed, rule ballI)
  fix k assume "k \<in> set (map fst P)"
  then have "map_of P k \<noteq> None" by (simp add: map_of_eq_None_iff)
  then show "map_of (grow P fs) k \<noteq> None"
    by (simp add: map_of_grow split: option.splits)
qed

lemma grow_snoc [simp]: "grow P (grow P fs @ [x]) = grow P fs @ [x]"
proof (rule grow_fixed, rule ballI)
  fix k assume "k \<in> set (map fst P)"
  then have "map_of P k \<noteq> None" by (simp add: map_of_eq_None_iff)
  then have "map_of (grow P fs) k \<noteq> None"
    by (simp add: map_of_grow split: option.splits)
  then show "map_of (grow P fs @ [x]) k \<noteq> None" by (auto simp: map_add_def)
qed

lemma lab_files_lookup [simp]:
  "map_of (grow P lab_files) ''/tmp'' = Some Dir"
  "map_of (grow P lab_files) ''/app'' = Some Dir"
  "map_of (grow P lab_files) ''/tmp/lig.smi'' = Some (File ''CCO'')"
  "map_of lab_files ''/tmp/lig.smi'' = Some (File ''CCO'')"
  by (simp_all add: map_of_grow lab_files_def)

lemma realpath_not_link':
  "(case map_of fs p of Some (Symlink _) \<Rightarrow> False | _ \<Rightarrow> True) \<Longrightarrow> realpath fs p = Some p"
  by (rule realpath_not_link) (auto split: option.splits node.splits)

lemma stat_not_link':
  "(case map_of fs p of Some (Symlink _) \<Rightarrow> False | _ \<Rightarrow> True) \<Longrightarrow> stat fs p = map_of fs p"
  by (simp add: stat_def realpath_not_link')

lemma update_absent: "map_of al k = None \<Longrightarrow> AList.update k v al = al @ [(k, v)]"
  by (induction al) (auto split: if_splits)

lemma update_last: "map_of al k = None \<Longrightarrow> AList.update k v (al @ [(k, u)]) = al @ [(k, v)]"
  by (induction al) (auto split: if_splits)

lemma lab_paths [simp]:
  "os_path_abspath w ''/tmp/'' = ''/tmp''"
  "os_path_abspath w ''/app'' = ''/app''"
  "os_path_abspath w ''/tmp/lig.smi'' = ''/tmp/lig.smi''"
  "os_path_abspath w ''/tmp/receptor_atoms.pdb'' = ''/tmp/receptor_atoms.pdb''"
  "os_path_abspath w ''/tmp/receptor_cryst1.pdb'' = ''/tmp/receptor_cryst1.pdb''"
  "os_path_abspath w ''/tmp/receptor_cryst1FH.pdb'' = ''/tmp/receptor_cryst1FH.pdb''"
  "os_path_abspath w ''/tmp/docking.pdbqt'' = ''/tmp/docking.pdbqt''"
  "os_path_abspath w ''/tmp/pose.sdf'' = ''/tmp/pose.sdf''"
  "parent ''/tmp/receptor_cryst1.pdb'' = ''/tmp''"
  by (simp_all add: os_path_abspath_def os_path_join_def normpath_def join_comps_def parent_def)

lemma lab_prepare_ligand:
  assumes "fsys w = lab_files" "cwd w = ''/app''"
  shows "fst (prepare_ligand (lab_platform P acc) ''/tmp/lig.smi'' w) = Inr ''/tmp/ligand_protomers/_i0.pdbqt''"
    and "fsys (snd (prepare_ligand (lab_platform P acc) ''/tmp/lig.smi'' w)) = grow P lab_files"
    and "cwd (snd (prepare_ligand (lab_platform P acc) ''/tmp/lig.smi'' w)) = ''/app''"
  by (simp_all add: prepare_ligand_def add_protomers_def Let_def read_text_def open_r_def
        read_handle_def utf8_decode_def byte_def realpath_not_link' lab_run_command assms)

lemma lab_atoms:
  assumes "fsys w = grow P lab_files" "cwd w = ''/app''"
  shows "fst (extract_receptor_atoms (lab_platform P acc) r w) = Inr ''/tmp/receptor_atoms.pdb''"
    and "fsys (snd (extract_receptor_atoms (lab_platform P acc) r w)) = grow P lab_files"
    and "cwd (snd (extract_receptor_atoms (lab_platform P acc) r w)) = ''/app''"
  by (simp_all add: extract_receptor_atoms_def Let_def lab_run_command assms)

lemma lab_combine:
  assumes "fsys w = grow P lab_files" "cwd w = ''/app''"
    and "map_of (grow P lab_files) ''/tmp/receptor_atoms.pdb'' = Some (File a)"
    and "map_of (grow P lab_files) ''/tmp/receptor_cryst1.pdb'' = None"
    and "utf8_valid a" and "CHR 0x0D \<notin> set a"
  shows "fst (extract_and_combine_cryst1 (lab_platform P acc) r ''/tmp/receptor_atoms.pdb'' w)
           = Inr ''/tmp/receptor_cryst1.pdb''"
    and "fsys (snd (extract_and_combine_cryst1 (lab_platform P acc) r ''/tmp/receptor_atoms.pdb'' w))
           = lab_result P a"
    and "cwd (snd (extract_and_combine_cryst1 (lab_platform P acc) r ''/tmp/receptor_atoms.pdb'' w))
           = ''/app''"
  by (simp_all add: extract_and_combine_cryst1_def Let_def lab_run_command assms
        open_r_def read_handle_def utf8_decode_def universal_newlines_id open_w_def
        write_text_def stat_not_link' realpath_not_link' update_absent update_last
        lab_result_def map_add_def)

lemma lab_result_grow [simp]: "grow P (lab_result P a) = lab_result P a"
  by (simp add: lab_result_def)

lemma lab_result_dirs [simp]:
  "map_of (lab_result P a) ''/tmp'' = Some Dir"
  "map_of (lab_result P a) ''/app'' = Some Dir"
  by (simp_all add: lab_result_def map_add_def)

lemma lab_hydrogens:
  assumes "fsys w = lab_result P a" "cwd w = ''/app''"
  shows "fst (add_hydrogens_and_optimize (lab_platform P acc) c w) = Inr ''/tmp/receptor_cryst1FH.pdb''"
    and "fsys (snd (add_hydrogens_and_optimize (lab_platform P acc) c w)) = lab_result P a"
    and "cwd (snd (add_hydrogens_and_optimize (lab_platform P acc) c w)) = ''/app''"
  by (simp_all add: add_hydrogens_and_optimize_def Let_def lab_run_command assms os_chdir_def os_getcwd_def
        realpath_not_link')

lemma lab_prepare_receptor:
  assumes "fsys w = grow P lab_files" "cwd w = ''/app''"
    and "map_of (grow P lab_files) ''/tmp/receptor_atoms.pdb'' = Some (File a)"
    and "map_of (grow P lab_files) ''/tmp/receptor_cryst1.pdb'' = None"
    and "utf8_valid a" and "CHR 0x0D \<notin> set a"
  shows "fst (prepare_receptor (lab_platform P acc) r b w)
           = Inr (''/tmp/receptor_cryst1FH.pdb'', ''/tmp/receptor_prepared.pdbqt'')"
    and "fsys (snd (prepare_receptor (lab_platform P acc) r b w)) = lab_result P a"
    and "cwd (snd (prepare_receptor (lab_platform P acc) r b w)) = ''/app''"
  using assms(3-6)
  by (simp_all add: prepare_receptor_def Let_def case_prod_unfold lab_run_command assms(1,2)
        lab_atoms lab_combine [where a = a] lab_hydrogens [where a = a])

lemma lab_docking:
  assumes "fsys w = lab_result P a" "cwd w = ''/app''"
  shows "fst (run_docking (lab_platform P acc) l r w) = Inr ''/tmp/docking.pdbqt''"
    and "fsys (snd (run_docking (lab_platform P acc) l r w)) = lab_result P a"
    and "cwd (snd (run_docking (lab_platform P acc) l r w)) = ''/app''"
  by (simp_all add: run_docking_def Let_def lab_run_command assms)

lemma lab_export:
  assumes "fsys w = lab_result P a" "cwd w = ''/app''"
  shows "fst (export_pose (lab_platform P acc) d w) = Inr ''/tmp/pose.sdf''"
    and "fsys (snd (export_pose (lab_platform P acc) d w)) = lab_result P a"
    and "cwd (snd (export_pose (lab_platform P acc) d w)) = ''/app''"
  by (simp_all add: export_pose_def Let_def lab_run_command assms)

lemma atom_bytes: "utf8_valid ''ATOM''" "CHR 0x0D \<notin> set ''ATOM''"
  by (simp_all add: byte_def)

lemma lab_run_stages:
  assumes "map_of (grow P lab_files) ''/tmp/receptor_atoms.pdb'' = Some (File a)"
    and "map_of (grow P lab_files) ''/tmp/receptor_cryst1.pdb'' = None"
    and "utf8_valid a" and "CHR 0x0D \<notin> set a"
  shows "fst (run_stages (lab_platform P acc) ''in/lig.smi'' ''in/rec.pdb'' ''in/box.pdb'' app_world)
     = Inr (''/tmp/docking.pdbqt'', ''/tmp/pose.sdf'', ''/tmp/receptor_cryst1FH.pdb'')"
  and "fsys (snd (run_stages (lab_platform P acc) ''in/lig.smi'' ''in/rec.pdb'' ''in/box.pdb'' app_world))
     = lab_result P a"
  and "cwd (snd (run_stages (lab_platform P acc) ''in/lig.smi'' ''in/rec.pdb'' ''in/box.pdb'' app_world))
     = ''/app''"
  using assms
  by (simp_all add: run_stages_def case_prod_unfold lab_clear lab_retrieve py_index_def
        lab_prepare_ligand lab_prepare_receptor [where a = a] lab_docking [where a = a]
        lab_export [where a = a])

lemma lab_all_stages:
  "lab_job_stages lab_all =
     (Inr (''/tmp/docking.pdbqt'', ''/tmp/pose.sdf'', ''/tmp/receptor_cryst1FH.pdb''),
      snd (lab_job_stages lab_all))"
  "fsys (snd (lab_job_stages lab_all)) = lab_result all_outputs ''ATOM''"
  "cwd (snd (lab_job_stages lab_all)) = ''/app''"
proof -
  have a: "map_of (grow all_outputs lab_files) ''/tmp/receptor_atoms.pdb'' = Some (File ''ATOM'')"
    and b: "map_of (grow all_outputs lab_files) ''/tmp/receptor_cryst1.pdb'' = None"
    by (simp_all add: map_of_grow lab_files_def all_outputs_def)
  note r = lab_run_stages [OF a b atom_bytes, of "\<lambda>n. True", folded lab_all_def]
  show "lab_job_stages lab_all =
     (Inr (''/tmp/docking.pdbqt'', ''/tmp/pose.sdf'', ''/tmp/receptor_cryst1FH.pdb''),
      snd (lab_job_stages lab_all))"
    using r(1) by (simp add: prod_eq_iff)
  show "fsys (snd (lab_job_stages lab_all)) = lab_result all_outputs ''ATOM''" by (rule r(2))
  show "cwd (snd (lab_job_stages lab_all)) = ''/app''" by (rule r(3))
qed

lemma lab_partial_stages:
  "lab_job_stages lab_partial =
     (Inr (''/tmp/docking.pdbqt'', ''/tmp/pose.sdf'', ''/tmp/receptor_cryst1FH.pdb''),
      snd (lab_job_stages lab_partial))"
  "fsys (snd (lab_job_stages lab_partial)) = lab_result outputs_without_pose ''ATOM''"
  "cwd (snd (lab_job_stages lab_partial)) = ''/app''"
proof -
  have a: "map_of (grow outputs_without_pose lab_files) ''/tmp/receptor_atoms.pdb'' = Some (File ''ATOM'')"
    and b: "map_of (grow outputs_without_pose lab_files) ''/tmp/receptor_cryst1.pdb'' = None"
    by (simp_all add: map_of_grow lab_files_def outputs_without_pose_def)
  note r = lab_run_stages [OF a b atom_bytes, of "\<lambda>n. n \<noteq> ''docking.pdbqt''", folded lab_partial_def]
  show "lab_job_stages lab_partial =
     (Inr (''/tmp/docking.pdbqt'', ''/tmp/pose.sdf'', ''/tmp/receptor_cryst1FH.pdb''),
      snd (lab_job_stages lab_partial))"
    using r(1) by (simp add: prod_eq_iff)
  show "fsys (snd (lab_job_stages lab_partial)) = lab_result outputs_without_pose ''ATOM''" by (rule r(2))
  show "cwd (snd (lab_job_stages lab_partial)) = ''/app''" by (rule r(3))
qed

lemma lab_all_uploaded:
  "uploaded lab_all ''out'' (snd (lab_job_stages lab_all)) (''/tmp/docking.pdbqt'', ''docking.pdbqt'')"
  "uploaded lab_all ''out'' (snd (lab_job_stages lab_all)) (''/tmp/pose.sdf'', ''pose.sdf'')"
  "uploaded lab_all ''out'' (snd (lab_job_stages lab_all)) (''/tmp/receptor_cryst1FH.pdb'', ''receptor_cryst1FH.pdb'')"
  by (simp_all add: uploaded_def os_path_exists_def lab_all_stages(2,3) stat_not_link'
        lab_result_def map_of_grow lab_files_def all_outputs_def map_add_def,
      simp_all add: lab_all_def lab_platform_def)

lemma lab_partial_uploaded:
  "\<not> uploaded lab_partial ''out'' (snd (lab_job_stages lab_partial)) (''/tmp/docking.pdbqt'', ''docking.pdbqt'')"
  "\<not> uploaded lab_partial ''out'' (snd (lab_job_stages lab_partial)) (''/tmp/pose.sdf'', ''pose.sdf'')"
  "uploaded lab_partial ''out'' (snd (lab_job_stages lab_partial)) (''/tmp/receptor_cryst1FH.pdb'', ''receptor_cryst1FH.pdb'')"
  "\<not> os_path_exists (snd (lab_job_stages lab_partial)) ''/tmp/pose.sdf''"
  "os_path_exists (snd (lab_job_stages lab_partial)) ''/tmp/docking.pdbqt''"
  by (simp_all add: uploaded_def os_path_exists_def lab_partial_stages(2,3) stat_not_link'
        lab_result_def map_of_grow lab_files_def outputs_without_pose_def map_add_def,
      simp_all add: lab_partial_def lab_platform_def)

lemma lab_no_raise:
  "\<not> upload_raises (lab_platform P acc) d w f"
  by (simp add: upload_raises_def lab_platform_def)

theorem publish_all_is_success_witness:
  "list_all (uploaded lab_all ''out'' (snd (lab_job_stages lab_all))) deliverables
   \<and> fst (lab_job lab_all) =
       Inr \<lparr>status = ''success'',
            outputs = [''docking.pdbqt'', ''pose.sdf'', ''receptor_cryst1FH.pdb''],
            failed_files = None\<rparr>"
proof -
  have ok: "\<forall>f \<in> set deliverables. uploaded lab_all ''out'' (snd (lab_job_stages lab_all)) f"
    by (simp add: deliverables_def lab_all_uploaded)
  then have "list_all (uploaded lab_all ''out'' (snd (lab_job_stages lab_all))) deliverables"
    by (simp only: list_all_iff)
  with publish_all_is_success [OF lab_all_stages(1) ok] show ?thesis by simp
qed

theorem publish_failure_is_partial_witness:
  "\<not> os_path_exists (snd (lab_job_stages lab_partial)) ''/tmp/pose.sdf''
   \<and> fst (lab_job lab_partial) =
       Inr \<lparr>status = ''partial_success'',
            outputs = [''receptor_cryst1FH.pdb''],
            failed_files = Some [''docking.pdbqt'', ''pose.sdf'']\<rparr>"
proof -
  have noraise: "\<forall>f \<in> set deliverables. \<not> upload_raises lab_partial ''out'' (snd (lab_job_stages lab_partial)) f"
    by (simp add: lab_partial_def lab_no_raise)
  have mem: "(''/tmp/pose.sdf'', ''pose.sdf'') \<in> set deliverables" by (simp add: deliverables_def)
  have bad: "\<not> os_path_exists (snd (lab_job_stages lab_partial)) ''/tmp/pose.sdf''
      \<or> upload_to_gcs lab_partial ''/tmp/pose.sdf'' ''out'' ''pose.sdf'' (fsys (snd (lab_job_stages lab_partial))) = Inr False"
    using lab_partial_uploaded(4) by simp
  from publish_failure_is_partial [OF lab_partial_stages(1) noraise mem bad]
  obtain res fl where r: "fst (lab_job lab_partial) = Inr res"
    and s: "status res = ''partial_success''" and f: "failed_files res = Some fl"
    and o: "outputs res = map snd (filter (uploaded lab_partial ''out'' (snd (lab_job_stages lab_partial))) deliverables)"
    and fl: "fl = map snd (filter (\<lambda>f. \<not> uploaded lab_partial ''out'' (snd (lab_job_stages lab_partial)) f) deliverables)"
    by blast
  from o have o': "outputs res = [''receptor_cryst1FH.pdb'']"
    by (simp add: deliverables_def lab_partial_uploaded)
  from fl have fl': "fl = [''docking.pdbqt'', ''pose.sdf'']"
    by (simp add: deliverables_def lab_partial_uploaded)
  have "res = \<lparr>status = ''partial_success'', outputs = [''receptor_cryst1FH.pdb''],
               failed_files = Some [''docking.pdbqt'', ''pose.sdf'']\<rparr>"
    using s f o' fl' by (cases res) simp
  with r lab_partial_uploaded(4) show ?thesis by simp
qed

theorem run_job_accounts_for_deliverables_witness:
  "fst (lab_job lab_partial) =
       Inr \<lparr>status = ''partial_success'', outputs = [''receptor_cryst1FH.pdb''],
            failed_files = Some [''docking.pdbqt'', ''pose.sdf'']\<rparr>
   \<and> distinct ([''receptor_cryst1FH.pdb''] @ [''docking.pdbqt'', ''pose.sdf''])
   \<and> set ([''receptor_cryst1FH.pdb''] @ [''docking.pdbqt'', ''pose.sdf'']) =
       {''docking.pdbqt'', ''pose.sdf'', ''receptor_cryst1FH.pdb''}"
proof -
  have noraise: "\<forall>f \<in> set deliverables. \<not> upload_raises lab_partial ''out'' (snd (lab_job_stages lab_partial)) f"
    by (simp add: lab_partial_def lab_no_raise)
  have r: "fst (lab_job lab_partial) =
       Inr \<lparr>status = ''partial_success'', outputs = [''receptor_cryst1FH.pdb''],
            failed_files = Some [''docking.pdbqt'', ''pose.sdf'']\<rparr>"
    unfolding run_job_result [OF lab_partial_stages(1) noraise]
    by (simp add: deliverables_def lab_partial_uploaded summary_def)
  from run_job_accounts_for_deliverables [OF r] r show ?thesis
    by (simp add: failed_list_def)
qed

subsection \<open>Fixed paths, the docking configuration, the working directory\<close>

text \<open>
  Claim C9. Whatever their arguments, the platform and the world, each stage that returns
  returns its fixed path: \<open>prepare_ligand\<close> the file of index 0,
  \<^verbatim>\<open>/tmp/ligand_protomers/_i0.pdbqt\<close>; \<open>prepare_receptor\<close> the pair
  \<^verbatim>\<open>/tmp/receptor_cryst1FH.pdb\<close>, \<^verbatim>\<open>/tmp/receptor_prepared.pdbqt\<close>; \<open>run_docking\<close>
  \<^verbatim>\<open>/tmp/docking.pdbqt\<close>; \<open>export_pose\<close> \<^verbatim>\<open>/tmp/pose.sdf\<close>.
\<close>

theorem stage_outputs_fixed:
  "(fst (prepare_ligand ext ligand w1) = Inr p1 \<longrightarrow> p1 = ''/tmp/ligand_protomers/_i0.pdbqt'')
   \<and> (fst (prepare_receptor ext receptor box w2) = Inr p2 \<longrightarrow>
        p2 = (''/tmp/receptor_cryst1FH.pdb'', ''/tmp/receptor_prepared.pdbqt''))
   \<and> (fst (run_docking ext ligand_prepared receptor_prepared w3) = Inr p3 \<longrightarrow>
        p3 = ''/tmp/docking.pdbqt'')
   \<and> (fst (export_pose ext docking w4) = Inr p4 \<longrightarrow> p4 = ''/tmp/pose.sdf'')"
  using prepare_ligand_path prepare_receptor_path run_docking_path export_pose_path by blast

lemma lab_world_fields [simp]:
  "fsys lab_world = lab_files" "cwd lab_world = ''/app''" "calls lab_world = []" "environ lab_world = []"
  by (simp_all add: lab_world_def app_world_def)

theorem stage_outputs_fixed_witness:
  "fst (prepare_ligand lab_all ''/tmp/lig.smi'' lab_world) = Inr ''/tmp/ligand_protomers/_i0.pdbqt''
   \<and> fst (prepare_receptor lab_all ''/tmp/rec.pdb'' ''/tmp/box.pdb''
            (snd (prepare_ligand lab_all ''/tmp/lig.smi'' lab_world))) =
       Inr (''/tmp/receptor_cryst1FH.pdb'', ''/tmp/receptor_prepared.pdbqt'')
   \<and> fst (run_docking lab_all ''/tmp/ligand_protomers/_i0.pdbqt'' ''/tmp/receptor_prepared.pdbqt'' lab_world) =
       Inr ''/tmp/docking.pdbqt''
   \<and> fst (export_pose lab_all ''/tmp/docking.pdbqt'' lab_world) = Inr ''/tmp/pose.sdf''"
proof -
  let ?w = "snd (prepare_ligand lab_all ''/tmp/lig.smi'' lab_world)"
  have a: "map_of (grow all_outputs lab_files) ''/tmp/receptor_atoms.pdb'' = Some (File ''ATOM'')"
    and b: "map_of (grow all_outputs lab_files) ''/tmp/receptor_cryst1.pdb'' = None"
    by (simp_all add: map_of_grow lab_files_def all_outputs_def)
  have l: "\<exists>p. fst (prepare_ligand lab_all ''/tmp/lig.smi'' lab_world) = Inr p"
    unfolding lab_all_def by (simp add: lab_prepare_ligand)
  have w: "fsys ?w = grow all_outputs lab_files" "cwd ?w = ''/app''"
    unfolding lab_all_def by (simp_all add: lab_prepare_ligand)
  have r: "\<exists>p. fst (prepare_receptor lab_all ''/tmp/rec.pdb'' ''/tmp/box.pdb'' ?w) = Inr p"
    using lab_prepare_receptor(1) [OF w [unfolded lab_all_def] a b atom_bytes] unfolding lab_all_def by simp
  have d: "\<exists>p. fst (run_docking lab_all ''/tmp/ligand_protomers/_i0.pdbqt'' ''/tmp/receptor_prepared.pdbqt'' lab_world) = Inr p"
    unfolding lab_all_def by (simp add: run_docking_def lab_run_command Let_def)
  have e: "\<exists>p. fst (export_pose lab_all ''/tmp/docking.pdbqt'' lab_world) = Inr p"
    unfolding lab_all_def by (simp add: export_pose_def lab_run_command Let_def)
  from l obtain p1 where p1: "fst (prepare_ligand lab_all ''/tmp/lig.smi'' lab_world) = Inr p1" ..
  from r obtain p2 where p2: "fst (prepare_receptor lab_all ''/tmp/rec.pdb'' ''/tmp/box.pdb'' ?w) = Inr p2" ..
  from d obtain p3 where p3: "fst (run_docking lab_all ''/tmp/ligand_protomers/_i0.pdbqt''
      ''/tmp/receptor_prepared.pdbqt'' lab_world) = Inr p3" ..
  from e obtain p4 where p4: "fst (export_pose lab_all ''/tmp/docking.pdbqt'' lab_world) = Inr p4" ..
  note t = stage_outputs_fixed [of lab_all "''/tmp/lig.smi''" lab_world p1
      "''/tmp/rec.pdb''" "''/tmp/box.pdb''" ?w p2
      "''/tmp/ligand_protomers/_i0.pdbqt''" "''/tmp/receptor_prepared.pdbqt''" lab_world p3
      "''/tmp/docking.pdbqt''" lab_world p4]
  from t p1 have "p1 = ''/tmp/ligand_protomers/_i0.pdbqt''" by blast
  moreover from t p2 have "p2 = (''/tmp/receptor_cryst1FH.pdb'', ''/tmp/receptor_prepared.pdbqt'')" by blast
  moreover from t p3 have "p3 = ''/tmp/docking.pdbqt''" by blast
  moreover from t p4 have "p4 = ''/tmp/pose.sdf''" by blast
  ultimately show ?thesis using p1 p2 p3 p4 by simp
qed

lemma commands_run_append [simp]:
  "commands_run (xs @ ys) = commands_run xs @ commands_run ys"
  by (simp add: commands_run_def)

lemma commands_run_simps [simp]:
  "commands_run [] = []"
  "commands_run (Run cmd e d # cs) = cmd # commands_run cs"
  "commands_run (Unlink p # cs) = commands_run cs"
  "commands_run (Rmtree p # cs) = commands_run cs"
  "commands_run (Download p # cs) = commands_run cs"
  "commands_run (Upload p d n # cs) = commands_run cs"
  by (simp_all add: commands_run_def)

lemma run_command_calls:
  "calls (snd (run_command ext command check env w)) =
     calls w @ [Run command (case env of None \<Rightarrow> environ w | Some e' \<Rightarrow> e') (cwd w)]"
  by (simp add: run_command_def Let_def split: prod.splits sum.splits)

lemma run_docking_command:
  "commands_run (calls (snd (run_docking ext ligand_prepared receptor_prepared w))) =
     commands_run (calls w) @
       [vina_command ligand_prepared receptor_prepared ''/tmp/receptor_prepared.box.txt'' ''/tmp/docking.pdbqt'']"
proof -
  let ?c = "vina_command ligand_prepared receptor_prepared ''/tmp/receptor_prepared.box.txt'' ''/tmp/docking.pdbqt''"
  have "calls (snd (run_docking ext ligand_prepared receptor_prepared w)) =
          calls (snd (run_command ext ?c True None (py_print ''Running docking...'' w)))"
    unfolding run_docking_def Let_def vina_command_def by (simp split: prod.splits sum.splits)
  then show ?thesis by (simp add: run_command_calls)
qed

lemma spec_box_config_prepared:
  "spec_box_config ''/tmp/receptor_prepared.pdbqt'' = Some ''/tmp/receptor_prepared.box.txt''"
  by (simp add: spec_box_config_def suffix_def)

text \<open>
  Claim C2, amended. Whatever prepared-receptor path \<open>run_docking\<close> is given, the
  configuration file it passes to the solver is the literal
  \<^verbatim>\<open>/tmp/receptor_prepared.box.txt\<close>. That is the \<^verbatim>\<open>X.box.txt\<close> of the one path
  \<open>prepare_receptor\<close> returns, \<^verbatim>\<open>/tmp/receptor_prepared.pdbqt\<close>, so for that path the
  configuration follows the receptor.
\<close>

theorem run_docking_config_literal:
  "commands_run (calls (snd (run_docking ext ligand_prepared receptor_prepared w))) =
     commands_run (calls w) @
       [vina_command ligand_prepared receptor_prepared ''/tmp/receptor_prepared.box.txt'' ''/tmp/docking.pdbqt'']
   \<and> config_follows_receptor ext ligand_prepared ''/tmp/receptor_prepared.pdbqt'' w"
  by (simp add: run_docking_command config_follows_receptor_def spec_box_config_prepared)

text \<open>
  Claim C2 as stated fails: given the prepared receptor \<^verbatim>\<open>/tmp/other.pdbqt\<close>,
  \<open>run_docking\<close> does not run the solver with \<^verbatim>\<open>/tmp/other.box.txt\<close>.
\<close>

theorem run_docking_config_counterexample:
  "\<not> config_follows_receptor lab_all ''/tmp/ligand_protomers/_i0.pdbqt'' ''/tmp/other.pdbqt'' lab_world"
proof -
  have s: "spec_box_config ''/tmp/other.pdbqt'' = Some ''/tmp/other.box.txt''"
    by (simp add: spec_box_config_def suffix_def)
  show ?thesis
    unfolding config_follows_receptor_def s run_docking_command
    by (simp add: vina_command_def)
qed

lemma chdir_tmp:
  assumes "map_of (fsys w) ''/tmp'' = Some Dir"
  shows "os_chdir ''/tmp/'' w = (Inr (), w\<lparr>cwd := ''/tmp''\<rparr>)"
  using assms by (simp add: os_chdir_def realpath_not_link')

lemma run_command_cwd [simp]:
  "cwd (snd (run_command ext command check env w)) = cwd w"
  by (simp add: run_command_def Let_def split: prod.splits sum.splits)

lemma run_command_cwd_pair:
  "run_command ext command check env w = (r, w') \<Longrightarrow> cwd w' = cwd w"
  using run_command_cwd [of ext command check env w] by simp

lemma os_chdir_error:
  "os_chdir p w = (Inl e, w') \<Longrightarrow> \<exists>k q. e = OSError k q"
  by (auto simp: os_chdir_def split: option.splits node.splits)

lemma add_hydrogens_failure_cwd:
  assumes tmp: "map_of (fsys w) ''/tmp'' = Some Dir"
    and fail: "fst (add_hydrogens_and_optimize ext receptor_cryst1 w) = Inl (CalledProcessError rc c out err)"
  shows "cwd (snd (add_hydrogens_and_optimize ext receptor_cryst1 w)) = ''/tmp''"
proof -
  let ?w0 = "py_print ''Adding hydrogens and optimizing with reduce2.py...'' w"
  have t: "os_chdir ''/tmp/'' ?w0 = (Inr (), ?w0\<lparr>cwd := ''/tmp''\<rparr>)"
    by (rule chdir_tmp) (simp add: tmp)
  show ?thesis
    using fail unfolding add_hydrogens_and_optimize_def Let_def t
    by (auto split: prod.splits sum.splits dest: os_chdir_error run_command_cwd_pair)
qed

text \<open>
  Claim C1 says that the working directory after \<open>add_hydrogens_and_optimize\<close> is the
  one before it, whether the step returns or raises. The source saves the directory,
  changes to \<^verbatim>\<open>/tmp/\<close>, runs the tool and changes back, with nothing that changes back
  when the tool raises. Here the process starts in \<^verbatim>\<open>/app\<close>, the tool exits with
  status 1, the step raises \<open>CalledProcessError\<close> and the process is left in
  \<^verbatim>\<open>/tmp\<close>.
\<close>

theorem add_hydrogens_failure_leaves_tmp:
  "cwd app_world = ''/app''
   \<and> (\<exists>c. fst (add_hydrogens_and_optimize failing_platform ''/tmp/receptor_cryst1.pdb'' app_world) =
          Inl (CalledProcessError 1 c [] ''boom''))
   \<and> cwd (snd (add_hydrogens_and_optimize failing_platform ''/tmp/receptor_cryst1.pdb'' app_world)) =
       ''/tmp''"
proof -
  have tmp: "map_of (fsys app_world) ''/tmp'' = Some Dir" by (simp add: app_world_def)
  let ?w0 = "py_print ''Adding hydrogens and optimizing with reduce2.py...'' app_world"
  have t: "os_chdir ''/tmp/'' ?w0 = (Inr (), ?w0\<lparr>cwd := ''/tmp''\<rparr>)"
    by (rule chdir_tmp) (simp add: tmp)
  have f: "\<exists>c. fst (add_hydrogens_and_optimize failing_platform ''/tmp/receptor_cryst1.pdb'' app_world) =
          Inl (CalledProcessError 1 c [] ''boom'')"
    unfolding add_hydrogens_and_optimize_def Let_def t
    by (simp add: run_command_def text_mode_def failing_platform_def failing_shell_def
          utf8_decode_def byte_def Let_def)
  then obtain c where "fst (add_hydrogens_and_optimize failing_platform ''/tmp/receptor_cryst1.pdb'' app_world) =
          Inl (CalledProcessError 1 c [] ''boom'')" ..
  from add_hydrogens_failure_cwd [OF tmp this] f show ?thesis by (simp add: app_world_def)
qed

lemma add_hydrogens_success_restores:
  "cwd (snd (add_hydrogens_and_optimize lab_all ''/tmp/receptor_cryst1.pdb''
               (lab_world\<lparr>fsys := lab_result all_outputs ''ATOM''\<rparr>))) = cwd lab_world"
  unfolding lab_all_def by (simp add: lab_hydrogens(3) [where a = "''ATOM''"])

subsection \<open>A failure in ligand preparation\<close>

lemma clear_tmp_entry_commands:
  "commands_run (calls (clear_tmp_entry d n w)) = commands_run (calls w)"
  by (simp add: clear_tmp_entry_def os_unlink_def shutil_rmtree_def Let_def
      split: option.splits node.splits)

lemma clear_tmp_loop_commands:
  "commands_run (calls (clear_tmp_loop d names w)) = commands_run (calls w)"
  by (induction names arbitrary: w) (simp_all add: clear_tmp_entry_commands)

lemma clear_tmp_commands:
  "commands_run (calls (snd (clear_tmp w))) = commands_run (calls w)"
  by (simp add: clear_tmp_def os_listdir_def Let_def clear_tmp_loop_commands
      split: option.splits node.splits)

lemma retrieve_loop_commands:
  "commands_run (calls (snd (retrieve_gcs_files_loop ext ps acc w))) = commands_run (calls w)"
  by (induction ps arbitrary: acc w) (simp_all split: prod.splits sum.splits)

lemma retrieve_commands:
  "commands_run (calls (snd (retrieve_gcs_files ext ps w))) = commands_run (calls w)"
  by (simp add: retrieve_gcs_files_def retrieve_loop_commands)

lemma run_command_commands:
  "commands_run (calls (snd (run_command ext command check env w))) = commands_run (calls w) @ [command]"
  by (simp add: run_command_calls)

lemma run_command_commands_pair:
  "run_command ext command check env w = (r, w') \<Longrightarrow>
     commands_run (calls w') = commands_run (calls w) @ [command]"
  using run_command_commands [of ext command check env w] by simp

lemma add_protomers_commands:
  "\<exists>cs. commands_run (calls (snd (add_protomers ext ligand w))) = commands_run (calls w) @ cs
        \<and> list_all ligand_command cs"
proof (cases "read_text w ligand")
  case (Inl e)
  then have "commands_run (calls (snd (add_protomers ext ligand w))) = commands_run (calls w) @ []"
    by (simp add: add_protomers_def)
  then show ?thesis by (intro exI [of _ "[]"]) simp
next
  case (Inr content)
  let ?c = "''micromamba run -n dwa_env scrub.py '' @ dquote @ strip content @ dquote
              @ '' -o '' @ ''/tmp/ligand_with_protomers.sdf'' @ '' --skip_tautomers --ph_low 5 --ph_high 9''"
  have "snd (add_protomers ext ligand w) = snd (run_command ext ?c True None w)"
    using Inr by (simp add: add_protomers_def Let_def split: prod.splits sum.splits)
  then have "commands_run (calls (snd (add_protomers ext ligand w))) = commands_run (calls w) @ [?c]"
    by (simp add: run_command_commands)
  moreover have "ligand_command ?c" by (simp add: ligand_command_def)
  ultimately show ?thesis by (intro exI [of _ "[?c]"]) simp
qed

lemma prepare_ligand_commands:
  "\<exists>cs. commands_run (calls (snd (prepare_ligand ext ligand w))) = commands_run (calls w) @ cs
        \<and> list_all ligand_command cs"
proof -
  let ?w0 = "py_print ''Preparing ligand...'' w"
  obtain r1 w1 where ap: "add_protomers ext ligand ?w0 = (r1, w1)" by (cases "add_protomers ext ligand ?w0")
  from add_protomers_commands [of ext ligand ?w0] ap
  obtain cs where cs: "commands_run (calls w1) = commands_run (calls w) @ cs"
    and l: "list_all ligand_command cs" by auto
  show ?thesis
  proof (cases r1)
    case (Inl e)
    then have "snd (prepare_ligand ext ligand w) = w1"
      by (simp add: prepare_ligand_def Let_def ap)
    with cs l show ?thesis by auto
  next
    case (Inr lwp)
    let ?c = "''micromamba run -n dwa_env mk_prepare_ligand.py -i '' @ lwp
                @ '' --multimol_outdir '' @ ''/tmp/ligand_protomers''"
    have "snd (prepare_ligand ext ligand w) = snd (run_command ext ?c True None w1)"
      using Inr by (simp add: prepare_ligand_def Let_def ap split: prod.splits sum.splits)
    then have "commands_run (calls (snd (prepare_ligand ext ligand w))) = commands_run (calls w) @ (cs @ [?c])"
      by (simp add: run_command_commands cs)
    moreover have "ligand_command ?c" by (simp add: ligand_command_def)
    ultimately show ?thesis using l by (intro exI [of _ "cs @ [?c]"]) simp
  qed
qed

lemma read_text_print [simp]: "read_text (py_print s w) p = read_text w p"
  by (simp add: read_text_def open_r_def read_handle_def os_path_abspath_def
      split: option.splits sum.splits)

lemma ligand_raise_stops_job:
  assumes "clear_tmp w = (Inr u, w1)"
    and "retrieve_gcs_files ext [ligand, receptor, box] w1 = (Inr [ligand_local, receptor_local, box_local], w2)"
    and "prepare_ligand ext ligand_local w2 = (Inl e, w3)"
  shows "run_job ext ligand receptor box dirname w =
           (Inl (RuntimeError (''Workflow failed: '' @ str_exn e) e), w3)
       \<and> (\<exists>cs. commands_run (calls w3) = commands_run (calls w) @ cs \<and> list_all ligand_command cs)"
proof -
  have "run_stages ext ligand receptor box w = (Inl e, w3)"
    unfolding run_stages_def by (simp add: assms py_index_def)
  then have r: "run_job ext ligand receptor box dirname w =
           (Inl (RuntimeError (''Workflow failed: '' @ str_exn e) e), w3)"
    by (simp add: run_job_def)
  from clear_tmp_commands [of w] assms(1) have a: "commands_run (calls w1) = commands_run (calls w)" by simp
  from retrieve_commands [of ext "[ligand, receptor, box]" w1] assms(2)
  have b: "commands_run (calls w2) = commands_run (calls w1)" by simp
  from prepare_ligand_commands [of ext ligand_local w2] assms(3)
  obtain cs where "commands_run (calls w3) = commands_run (calls w2) @ cs" and "list_all ligand_command cs"
    by auto
  with a b r show ?thesis by auto
qed

lemma run_command_raises:
  assumes "shell ext command (environ w) (cwd w) (fsys w) = (raw, fs')" and "returncode raw \<noteq> 0"
  shows "\<exists>e. fst (run_command ext command True None w) = Inl e"
proof (cases "text_mode ext raw")
  case (Inl e)
  with assms(1) show ?thesis by (simp add: run_command_def Let_def)
next
  case (Inr r)
  from text_mode_returncode [OF Inr] assms(2) have "returncode r \<noteq> 0" by simp
  with Inr assms(1) show ?thesis by (simp add: run_command_def Let_def)
qed

lemma run_command_world:
  assumes "shell ext command (environ w) (cwd w) (fsys w) = (raw, fs')"
  shows "fsys (snd (run_command ext command check None w)) = fs'"
    and "cwd (snd (run_command ext command check None w)) = cwd w"
    and "environ (snd (run_command ext command check None w)) = environ w"
  using assms by (simp_all add: run_command_def Let_def split: sum.splits)

lemma tool_failure_raises:
  assumes rt: "read_text w ligand = Inr content"
    and sh1: "shell ext (scrub_command (strip content)) (environ w) (cwd w) (fsys w) = (r1, fs1)"
    and sh2: "shell ext mk_prepare_ligand_command (environ w) (cwd w) fs1 = (r2, fs2)"
    and nz: "returncode r1 \<noteq> 0 \<or> returncode r2 \<noteq> 0"
  shows "\<exists>e. fst (prepare_ligand ext ligand w) = Inl e"
proof -
  let ?w0 = "py_print ''Preparing ligand...'' w"
  let ?c = "scrub_command (strip content)"
  have sh1': "shell ext ?c (environ ?w0) (cwd ?w0) (fsys ?w0) = (r1, fs1)"
    using sh1 by simp
  define a where "a = run_command ext ?c True None ?w0"
  have ap: "add_protomers ext ligand ?w0 =
              (case fst a of Inl e \<Rightarrow> Inl e | Inr _ \<Rightarrow> Inr ''/tmp/ligand_with_protomers.sdf'', snd a)"
    using rt by (simp add: add_protomers_def Let_def scrub_command_def a_def split: prod.splits sum.splits)
  show ?thesis
  proof (cases "fst a")
    case (Inl e)
    then show ?thesis by (simp add: prepare_ligand_def Let_def ap)
  next
    case (Inr x)
    have "returncode r1 = 0"
    proof (rule ccontr)
      assume "returncode r1 \<noteq> 0"
      from run_command_raises [OF sh1' this] Inr show False by (simp add: a_def)
    qed
    with nz have nz2: "returncode r2 \<noteq> 0" by simp
    from run_command_world [OF sh1', of True]
    have w: "fsys (snd a) = fs1" "cwd (snd a) = cwd w" "environ (snd a) = environ w"
      by (simp_all add: a_def)
    have "shell ext mk_prepare_ligand_command (environ (snd a)) (cwd (snd a)) (fsys (snd a)) = (r2, fs2)"
      using sh2 by (simp add: w)
    from run_command_raises [OF this nz2]
    obtain e where "fst (run_command ext mk_prepare_ligand_command True None (snd a)) = Inl e" ..
    then show ?thesis
      using Inr
      by (auto simp: prepare_ligand_def Let_def ap mk_prepare_ligand_command_def split: prod.splits)
  qed
qed

text \<open>
  Claim C6. Let clearing and the downloads have gone through and the ligand file be
  readable, so that ligand preparation calls its tools: \<^verbatim>\<open>scrub.py\<close> first, then
  \<^verbatim>\<open>mk_prepare_ligand.py\<close> on the file system the first one leaves. If one of the two
  exits with a status other than zero, \<open>run_job\<close> raises the workflow error that wraps
  the cause and returns no result, and the only commands run during the job are commands
  of ligand preparation: none of receptor preparation, docking or export.
\<close>

theorem ligand_failure_stops_job:
  assumes "clear_tmp w = (Inr u, w1)"
    and "retrieve_gcs_files ext [ligand, receptor, box] w1 = (Inr [ligand_local, receptor_local, box_local], w2)"
    and "read_text w2 ligand_local = Inr content"
    and "shell ext (scrub_command (strip content)) (environ w2) (cwd w2) (fsys w2) = (r1, fs1)"
    and "shell ext mk_prepare_ligand_command (environ w2) (cwd w2) fs1 = (r2, fs2)"
    and "returncode r1 \<noteq> 0 \<or> returncode r2 \<noteq> 0"
  shows "\<exists>e w3. run_job ext ligand receptor box dirname w =
                  (Inl (RuntimeError (''Workflow failed: '' @ str_exn e) e), w3)
               \<and> (\<exists>cs. commands_run (calls w3) = commands_run (calls w) @ cs
                        \<and> list_all ligand_command cs)"
proof -
  from tool_failure_raises [OF assms(3-6)]
  obtain e where "fst (prepare_ligand ext ligand_local w2) = Inl e" ..
  then have "prepare_ligand ext ligand_local w2 = (Inl e, snd (prepare_ligand ext ligand_local w2))"
    by (simp add: prod_eq_iff)
  from ligand_raise_stops_job [OF assms(1,2) this] show ?thesis by blast
qed

theorem ligand_failure_stops_job_witness:
  "shell late_platform (scrub_command (strip ''CCO'')) [] ''/app'' (fsys lig_world) =
     (\<lparr>returncode = 0, stdout = [], stderr = []\<rparr>, fsys lig_world)
   \<and> shell late_platform mk_prepare_ligand_command [] ''/app'' (fsys lig_world) =
     (\<lparr>returncode = 1, stdout = [], stderr = ''boom''\<rparr>, fsys lig_world)
   \<and> (\<exists>e w3. lig_job = (Inl (RuntimeError (''Workflow failed: '' @ str_exn e) e), w3)
        \<and> (\<exists>cs. commands_run (calls w3) = commands_run (calls lig_world) @ cs
                 \<and> list_all ligand_command cs))
   \<and> fst lig_job =
       Inl (RuntimeError
              (''Workflow failed: '' @ str_exn (CalledProcessError 1 mk_prepare_ligand_command [] ''boom''))
              (CalledProcessError 1 mk_prepare_ligand_command [] ''boom''))
   \<and> commands_run (calls (snd lig_job)) = [scrub_command ''CCO'', mk_prepare_ligand_command]"
proof -
  let ?w2 = "snd (retrieve_gcs_files late_platform [''/app/lig.smi'', ''/app/rec.pdb'', ''/app/box.pdb''] lig_world)"
  let ?w3 = "snd (prepare_ligand late_platform ''/app/lig.smi'' ?w2)"
  let ?e = "CalledProcessError 1 mk_prepare_ligand_command [] ''boom''"
  have h1: "clear_tmp lig_world = (Inr (), lig_world)"
    by (simp add: clear_tmp_def os_listdir_def lig_world_def app_world_def path_eval child_of_def
          under_def dir_prefix_def)
  have h2: "retrieve_gcs_files late_platform [''/app/lig.smi'', ''/app/rec.pdb'', ''/app/box.pdb''] lig_world =
      (Inr [''/app/lig.smi'', ''/app/rec.pdb'', ''/app/box.pdb''], ?w2)"
    by (simp add: retrieve_gcs_files_def late_platform_def prod_eq_iff)
  have w2: "fsys ?w2 = fsys lig_world" "cwd ?w2 = ''/app''" "environ ?w2 = []" "commands_run (calls ?w2) = []"
    by (simp_all add: retrieve_gcs_files_def late_platform_def lig_world_def app_world_def)
  have rt: "read_text ?w2 ''/app/lig.smi'' = Inr ''CCO''"
    unfolding read_text_def open_r_def read_handle_def os_path_abspath_def w2
    by (simp add: lig_world_def app_world_def os_path_join_def normpath_def join_comps_def
          realpath_def eval_nat_numeral utf8_decode_def byte_def)
  have st: "strip ''CCO'' = ''CCO''"
    by (simp add: strip_def lstrip_def rstrip_def whitespace_def drop_ws.simps)
  have s1: "shell late_platform (scrub_command (strip ''CCO'')) [] ''/app'' (fsys lig_world) =
      (\<lparr>returncode = 0, stdout = [], stderr = []\<rparr>, fsys lig_world)"
    by (simp add: st late_platform_def late_shell_def scrub_command_def)
  have s2: "shell late_platform mk_prepare_ligand_command [] ''/app'' (fsys lig_world) =
      (\<lparr>returncode = 1, stdout = [], stderr = ''boom''\<rparr>, fsys lig_world)"
    by (simp add: late_platform_def late_shell_def mk_prepare_ligand_command_def)
  have sh1: "shell late_platform (scrub_command (strip ''CCO'')) (environ ?w2) (cwd ?w2) (fsys ?w2) =
      (\<lparr>returncode = 0, stdout = [], stderr = []\<rparr>, fsys lig_world)"
    unfolding w2 by (rule s1)
  have sh2: "shell late_platform mk_prepare_ligand_command (environ ?w2) (cwd ?w2) (fsys lig_world) =
      (\<lparr>returncode = 1, stdout = [], stderr = ''boom''\<rparr>, fsys lig_world)"
    unfolding w2 by (rule s2)
  have nz: "returncode \<lparr>returncode = 0, stdout = [], stderr = []\<rparr> \<noteq> 0
            \<or> returncode \<lparr>returncode = 1, stdout = [], stderr = ''boom''\<rparr> \<noteq> 0"
    by simp
  note t = ligand_failure_stops_job [OF h1 h2 rt sh1 sh2 nz, of "''out''"]
  have dec: "locale_decode late_platform [] = Some []" "locale_decode late_platform ''boom'' = Some ''boom''"
    by (simp_all add: late_platform_def utf8_decode_def byte_def)
  have f: "fst (prepare_ligand late_platform ''/app/lig.smi'' ?w2) = Inl ?e"
    and c: "commands_run (calls ?w3) = [scrub_command ''CCO'', mk_prepare_ligand_command]"
    using rt sh1 sh2 w2(4)
    by (simp_all add: prepare_ligand_def add_protomers_def Let_def run_command_def text_mode_def dec
          w2(1,2,3) st scrub_command_def mk_prepare_ligand_command_def commands_run_simps)
  from f have h3: "prepare_ligand late_platform ''/app/lig.smi'' ?w2 = (Inl ?e, ?w3)"
    by (simp add: prod_eq_iff)
  from ligand_raise_stops_job [OF h1 h2 h3, of "''out''"]
  have j: "lig_job = (Inl (RuntimeError (''Workflow failed: '' @ str_exn ?e) ?e), ?w3)" by blast
  from t s1 s2 j c show ?thesis by simp
qed

subsection \<open>The crystallographic-record merge\<close>

lemma lines_acc_no_newline:
  "CHR 0x0A \<notin> set acc \<Longrightarrow> \<forall>l \<in> set (lines_acc acc s). CHR 0x0A \<notin> set l"
proof (induction s arbitrary: acc)
  case Nil
  then show ?case by simp
next
  case (Cons c s)
  show ?case
  proof (cases "c = CHR 0x0A")
    case True
    with Cons.IH [of "[]"] Cons.prems show ?thesis by simp
  next
    case False
    with Cons.IH [of "c # acc"] Cons.prems show ?thesis by simp
  qed
qed

lemma lines_of_no_newline: "l \<in> set (lines_of s) \<Longrightarrow> CHR 0x0A \<notin> set l"
  using lines_acc_no_newline [of "[]" s] by (simp add: lines_of_def)

lemma resolve_update_file:
  assumes "\<And>t. map_of fs q \<noteq> Some (Symlink t)"
  shows "resolve n (AList.update q (File c) fs) p = resolve n fs p"
proof (induction n arbitrary: p)
  case 0
  then show ?case by simp
next
  case (Suc n)
  show ?case
  proof (cases "p = q")
    case True
    with assms show ?thesis by (simp add: update_conv' split: option.splits node.splits)
  next
    case False
    then show ?thesis by (simp add: update_conv' Suc.IH split: option.splits node.splits)
  qed
qed

lemma realpath_update_file:
  assumes "\<And>t. map_of fs q \<noteq> Some (Symlink t)"
  shows "realpath (AList.update q (File c) fs) p = realpath fs p"
  unfolding realpath_def by (rule resolve_update_file [OF assms])

lemma merged_text_no_match:
  assumes "grep_lines ''CRYST1'' raw = []"
  shows "merged_text raw a = a"
  using assms by (simp add: merged_text_def grep_stdout_def)

lemma takeWhile_until:
  "c \<notin> set xs \<Longrightarrow> takeWhile (\<lambda>x. x \<noteq> c) (xs @ c # ys) = xs"
  by (induction xs) auto

lemma merged_text_one_match:
  assumes "grep_lines ''CRYST1'' raw = [l]"
  shows "merged_text raw a = strip l @ newline @ a" and "first_line (merged_text raw a) = strip l"
proof -
  from assms have "l \<in> set (grep_lines ''CRYST1'' raw)" by simp
  then have sub: "sublist ''CRYST1'' l" and line: "l \<in> set (lines_of raw)"
    by (simp_all add: grep_lines_def)
  from sub have "CHR ''C'' \<in> set l" by (auto simp: sublist_def)
  then have ne: "strip l \<noteq> []" using not_whitespace_C by (rule strip_nonempty)
  have st: "strip (grep_stdout ''CRYST1'' raw) = strip l"
    using strip_snoc_newline [of l] by (simp add: grep_stdout_def assms newline_def)
  show m: "merged_text raw a = strip l @ newline @ a"
    using ne by (simp add: merged_text_def st)
  from lines_of_no_newline [OF line] strip_subset [of l]
  have "CHR 0x0A \<notin> set (strip l)" by blast
  then have "takeWhile (\<lambda>c. c \<noteq> CHR 0x0A) (strip l @ CHR 0x0A # a) = strip l"
    by (rule takeWhile_until)
  then show "first_line (merged_text raw a) = strip l"
    by (simp add: first_line_def m newline_def)
qed

lemma combine_result:
  assumes grep: "shell ext (''grep '' @ dquote @ ''CRYST1'' @ dquote @ '' '' @ receptor)
                   (environ w) (cwd w) (fsys w) = (raw, fsys w)"
    and tm: "text_mode ext raw = Inr r"
    and atoms: "stat (fsys w) (os_path_abspath w receptor_atoms) = Some (File a)"
    and valid: "utf8_valid a"
    and tmp: "map_of (fsys w) ''/tmp'' = Some Dir"
    and free: "case map_of (fsys w) ''/tmp/receptor_cryst1.pdb'' of
                 None \<Rightarrow> True | Some (File _) \<Rightarrow> True | Some _ \<Rightarrow> False"
    and noalias: "realpath (fsys w) (os_path_abspath w receptor_atoms) \<noteq> Some ''/tmp/receptor_cryst1.pdb''"
  shows "fst (extract_and_combine_cryst1 ext receptor receptor_atoms w) = Inr ''/tmp/receptor_cryst1.pdb''"
    and "stat (fsys (snd (extract_and_combine_cryst1 ext receptor receptor_atoms w))) ''/tmp/receptor_cryst1.pdb'' =
           Some (File ((if strip (stdout r) \<noteq> [] then strip (stdout r) @ newline else [])
                         @ universal_newlines a))"
proof -
  let ?out = "''/tmp/receptor_cryst1.pdb''"
  let ?w0 = "py_print ''Extracting CRYST1 and combining with receptor atoms...'' w"
  define w1 where "w1 = snd (run_command ext (''grep '' @ dquote @ ''CRYST1'' @ dquote @ '' '' @ receptor) False None ?w0)"
  have rc: "run_command ext (''grep '' @ dquote @ ''CRYST1'' @ dquote @ '' '' @ receptor) False None ?w0 = (Inr r, w1)"
    unfolding w1_def using grep tm by (simp add: run_command_def Let_def)
  have w1: "fsys w1 = fsys w" "cwd w1 = cwd w"
    unfolding w1_def using grep tm by (simp_all add: run_command_def Let_def)
  have nolink: "\<And>t. map_of (fsys w) ?out \<noteq> Some (Symlink t)"
    using free by (auto split: option.splits node.splits)
  have rp: "realpath (fsys w) ?out = Some ?out"
    by (rule realpath_not_link) (rule nolink)
  have st: "stat (fsys w) ''/tmp'' = Some Dir"
    using tmp by (simp add: stat_not_link)
  define fs2 where "fs2 = AList.update ?out (File []) (fsys w)"
  have ow: "open_w ?out w1 = (Inr ?out, w1\<lparr>fsys := fs2\<rparr>)"
    using free by (simp add: open_w_def w1 rp st fs2_def split: option.splits node.splits)
  from atoms obtain q where q: "realpath (fsys w) (os_path_abspath w receptor_atoms) = Some q"
    and qa: "map_of (fsys w) q = Some (File a)"
    unfolding stat_def by (auto split: option.splits)
  from q noalias have qn: "q \<noteq> ?out" by simp
  have r1: "open_r w1 receptor_atoms = Inr q"
    using q qa by (simp add: open_r_def os_path_abspath_def w1)
  have r2: "read_handle (w1\<lparr>fsys := fs2\<rparr>) q = Inr (universal_newlines a)"
    using qa qn valid by (simp add: read_handle_def fs2_def update_conv' utf8_decode_def)
  let ?c = "strip (stdout r)"
  have res: "extract_and_combine_cryst1 ext receptor receptor_atoms w =
      (Inr ?out, py_print ''Combined receptor file created: {output_path}''
         (write_text ?out (universal_newlines a)
            (if ?c \<noteq> [] then write_text ?out (?c @ newline) (w1\<lparr>fsys := fs2\<rparr>)
             else w1\<lparr>fsys := fs2\<rparr>)))"
    using rc r1 ow r2 by (simp add: extract_and_combine_cryst1_def Let_def)
  show "fst (extract_and_combine_cryst1 ext receptor receptor_atoms w) = Inr ?out"
    by (simp add: res)
  have f4: "map_of (fsys (snd (extract_and_combine_cryst1 ext receptor receptor_atoms w))) ?out =
      Some (File ((if ?c \<noteq> [] then ?c @ newline else []) @ universal_newlines a))"
    by (simp add: res write_text_def fs2_def update_conv')
  show "stat (fsys (snd (extract_and_combine_cryst1 ext receptor receptor_atoms w))) ?out =
           Some (File ((if ?c \<noteq> [] then ?c @ newline else []) @ universal_newlines a))"
    using f4 by (simp add: stat_not_link)
qed

text \<open>
  Claim C5, amended. Let the raw receptor be readable, with text \<open>raw\<close>. Let \<^verbatim>\<open>grep\<close>
  leave the file system alone and write bytes that the locale can decode, its output
  being, once decoded and its newlines translated, the lines of \<open>raw\<close> that contain
  \<^verbatim>\<open>CRYST1\<close>, each followed by a newline. Let the atoms file be a regular file holding
  the bytes \<open>a\<close>, valid UTF-8, and not be the output file; let \<^verbatim>\<open>/tmp\<close> be a directory
  and \<^verbatim>\<open>/tmp/receptor_cryst1.pdb\<close> be free or a regular file. Then the merge returns its
  output path and the output file holds \<open>merged_text\<close> of \<open>raw\<close> and of the text of
  the atoms file, which is \<open>a\<close> with \<^verbatim>\<open>\r\n\<close> and \<^verbatim>\<open>\r\<close> turned into \<^verbatim>\<open>\n\<close>, and is
  \<open>a\<close> itself when \<open>a\<close> holds no carriage return. When no line of \<open>raw\<close> contains
  \<^verbatim>\<open>CRYST1\<close> the output is that text, with no line in front; when exactly one line
  does, the first line of the output is that line with the whitespace at its two ends
  removed, and the text of the atoms file follows.
\<close>

theorem cryst1_merge:
  assumes raw: "read_text w receptor = Inr raw"
    and grep: "shell ext (''grep '' @ dquote @ ''CRYST1'' @ dquote @ '' '' @ receptor)
                   (environ w) (cwd w) (fsys w) = (r, fsys w)"
    and out: "locale_decode ext (stdout r) = Some so"
    and err: "locale_decode ext (stderr r) = Some se"
    and found: "universal_newlines so = grep_stdout ''CRYST1'' raw"
    and atoms: "stat (fsys w) (os_path_abspath w receptor_atoms) = Some (File a)"
    and valid: "utf8_valid a"
    and tmp: "map_of (fsys w) ''/tmp'' = Some Dir"
    and free: "case map_of (fsys w) ''/tmp/receptor_cryst1.pdb'' of
                 None \<Rightarrow> True | Some (File _) \<Rightarrow> True | Some _ \<Rightarrow> False"
    and noalias: "realpath (fsys w) (os_path_abspath w receptor_atoms) \<noteq> Some ''/tmp/receptor_cryst1.pdb''"
  shows "fst (extract_and_combine_cryst1 ext receptor receptor_atoms w) = Inr ''/tmp/receptor_cryst1.pdb''
       \<and> stat (fsys (snd (extract_and_combine_cryst1 ext receptor receptor_atoms w)))
             ''/tmp/receptor_cryst1.pdb'' = Some (File (merged_text raw (universal_newlines a)))
       \<and> (CHR 0x0D \<notin> set a \<longrightarrow> universal_newlines a = a)
       \<and> (grep_lines ''CRYST1'' raw = [] \<longrightarrow>
            merged_text raw (universal_newlines a) = universal_newlines a)
       \<and> (\<forall>l. grep_lines ''CRYST1'' raw = [l] \<longrightarrow>
              merged_text raw (universal_newlines a) = strip l @ newline @ universal_newlines a
              \<and> first_line (merged_text raw (universal_newlines a)) = strip l)"
proof -
  note c = combine_result [OF grep text_mode_decoded [OF out err] atoms valid tmp free noalias]
  have "(if strip (universal_newlines so) \<noteq> [] then strip (universal_newlines so) @ newline else [])
          @ universal_newlines a = merged_text raw (universal_newlines a)"
    by (simp add: merged_text_def found Let_def)
  with c show ?thesis
    using merged_text_no_match merged_text_one_match universal_newlines_id by auto
qed

lemma raw_receptor_lines:
  "lines_of raw_receptor = [''HEADER'', cryst_record, ''ATOM 1 N MET A 1'', ''HETATM 2 O HOH A 2'']"
  "lines_of plain_receptor = [''HEADER'', ''ATOM 1 N MET A 1'']"
  by (simp_all add: lines_of_def raw_receptor_def plain_receptor_def cryst_record_def atom_text_def
        newline_def)

lemma raw_receptor_grep:
  "grep_lines ''CRYST1'' raw_receptor = [cryst_record]"
  "grep_lines ''CRYST1'' plain_receptor = []"
  by (simp_all add: grep_lines_def raw_receptor_lines cryst_record_def sublist_code(3))

lemma cryst_record_strip: "strip cryst_record = ''CRYST1 50.0 60.0 70.0 90 90 90 P 1''"
  by (simp add: strip_def lstrip_def rstrip_def whitespace_def cryst_record_def drop_ws.simps)

lemma receptor_texts:
  "utf8_valid raw_receptor" "CHR 0x0D \<notin> set raw_receptor"
  "utf8_valid plain_receptor" "CHR 0x0D \<notin> set plain_receptor"
  "utf8_valid atom_text" "CHR 0x0D \<notin> set atom_text"
  "utf8_valid (cryst_record @ newline)" "CHR 0x0D \<notin> set (cryst_record @ newline)"
  by (simp_all add: raw_receptor_def plain_receptor_def cryst_record_def atom_text_def newline_def
        byte_def)

lemma merge_world_facts:
  assumes "utf8_valid raw" and "CHR 0x0D \<notin> set raw"
  shows "read_text (merge_world raw) ''/tmp/rec.pdb'' = Inr raw"
    and "stat (fsys (merge_world raw)) (os_path_abspath (merge_world raw) ''/tmp/receptor_atoms.pdb'') =
           Some (File atom_text)"
    and "map_of (fsys (merge_world raw)) ''/tmp'' = Some Dir"
    and "map_of (fsys (merge_world raw)) ''/tmp/receptor_cryst1.pdb'' = None"
    and "realpath (fsys (merge_world raw)) (os_path_abspath (merge_world raw) ''/tmp/receptor_atoms.pdb'') =
           Some ''/tmp/receptor_atoms.pdb''"
    and "shell grep_platform (''grep '' @ dquote @ ''CRYST1'' @ dquote @ '' '' @ ''/tmp/rec.pdb'')
           (environ (merge_world raw)) (cwd (merge_world raw)) (fsys (merge_world raw)) =
           (\<lparr>returncode = (if grep_lines ''CRYST1'' raw = [] then 1 else 0),
             stdout = grep_stdout ''CRYST1'' raw, stderr = []\<rparr>, fsys (merge_world raw))"
  using assms
  by (simp_all add: merge_world_def read_text_def open_r_def read_handle_def utf8_decode_def
        universal_newlines_id path_eval grep_platform_def grep_shell_def dquote_def)

lemma merge_world_side:
  "case map_of (fsys (merge_world raw)) ''/tmp/receptor_cryst1.pdb'' of
     None \<Rightarrow> True | Some (File _) \<Rightarrow> True | Some _ \<Rightarrow> False"
  "realpath (fsys (merge_world raw)) (os_path_abspath (merge_world raw) ''/tmp/receptor_atoms.pdb'') \<noteq>
     Some ''/tmp/receptor_cryst1.pdb''"
  by (simp_all add: merge_world_def path_eval)

lemma grep_decoded:
  "locale_decode grep_platform (grep_stdout ''CRYST1'' raw_receptor) = Some (cryst_record @ newline)"
  "locale_decode grep_platform (grep_stdout ''CRYST1'' plain_receptor) = Some []"
  "locale_decode grep_platform [] = Some []"
  using receptor_texts(7)
  by (simp_all add: grep_platform_def grep_stdout_def raw_receptor_grep utf8_decode_def)

theorem cryst1_merge_witness:
  "read_text (merge_world raw_receptor) ''/tmp/rec.pdb'' = Inr raw_receptor
   \<and> grep_lines ''CRYST1'' raw_receptor = [cryst_record]
   \<and> stat (fsys (merge_world raw_receptor)) ''/tmp/receptor_atoms.pdb'' = Some (File atom_text)
   \<and> fst (merge_of raw_receptor) = Inr ''/tmp/receptor_cryst1.pdb''
   \<and> stat (fsys (snd (merge_of raw_receptor))) ''/tmp/receptor_cryst1.pdb'' =
       Some (File (''CRYST1 50.0 60.0 70.0 90 90 90 P 1'' @ newline @ atom_text))
   \<and> first_line (''CRYST1 50.0 60.0 70.0 90 90 90 P 1'' @ newline @ atom_text) =
       ''CRYST1 50.0 60.0 70.0 90 90 90 P 1''
   \<and> read_text (merge_world plain_receptor) ''/tmp/rec.pdb'' = Inr plain_receptor
   \<and> grep_lines ''CRYST1'' plain_receptor = []
   \<and> CHR 0x0D \<notin> set atom_text
   \<and> stat (fsys (snd (merge_of plain_receptor))) ''/tmp/receptor_cryst1.pdb'' = Some (File atom_text)"
proof -
  note f = merge_world_facts [OF receptor_texts(1,2)]
  note g = merge_world_facts [OF receptor_texts(3,4)]
  have so: "stdout \<lparr>returncode = (if grep_lines ''CRYST1'' raw = [] then 1 else 0),
                    stdout = grep_stdout ''CRYST1'' raw, stderr = []\<rparr> = grep_stdout ''CRYST1'' raw"
    and se: "stderr \<lparr>returncode = (if grep_lines ''CRYST1'' raw = [] then 1 else 0),
                    stdout = grep_stdout ''CRYST1'' raw, stderr = []\<rparr> = []" for raw
    by simp_all
  have o1: "locale_decode grep_platform
              (stdout \<lparr>returncode = (if grep_lines ''CRYST1'' raw_receptor = [] then 1 else 0),
                       stdout = grep_stdout ''CRYST1'' raw_receptor, stderr = []\<rparr>) =
            Some (cryst_record @ newline)"
    unfolding so by (rule grep_decoded(1))
  have e1: "locale_decode grep_platform
              (stderr \<lparr>returncode = (if grep_lines ''CRYST1'' raw_receptor = [] then 1 else 0),
                       stdout = grep_stdout ''CRYST1'' raw_receptor, stderr = []\<rparr>) = Some []"
    unfolding se by (rule grep_decoded(3))
  have n1: "universal_newlines (cryst_record @ newline) = grep_stdout ''CRYST1'' raw_receptor"
    using universal_newlines_id [OF receptor_texts(8)] by (simp add: grep_stdout_def raw_receptor_grep)
  have o2: "locale_decode grep_platform
              (stdout \<lparr>returncode = (if grep_lines ''CRYST1'' plain_receptor = [] then 1 else 0),
                       stdout = grep_stdout ''CRYST1'' plain_receptor, stderr = []\<rparr>) = Some []"
    unfolding so by (rule grep_decoded(2))
  have e2: "locale_decode grep_platform
              (stderr \<lparr>returncode = (if grep_lines ''CRYST1'' plain_receptor = [] then 1 else 0),
                       stdout = grep_stdout ''CRYST1'' plain_receptor, stderr = []\<rparr>) = Some []"
    unfolding se by (rule grep_decoded(3))
  have n2: "universal_newlines [] = grep_stdout ''CRYST1'' plain_receptor"
    by (simp add: grep_stdout_def raw_receptor_grep)
  note t = cryst1_merge [OF f(1) f(6) o1 e1 n1 f(2) receptor_texts(5) f(3) merge_world_side]
  note u = cryst1_merge [OF g(1) g(6) o2 e2 n2 g(2) receptor_texts(5) g(3) merge_world_side]
  have id: "universal_newlines atom_text = atom_text"
    by (rule universal_newlines_id) (rule receptor_texts(6))
  from t have a: "fst (merge_of raw_receptor) = Inr ''/tmp/receptor_cryst1.pdb''" by blast
  from t have b: "stat (fsys (snd (merge_of raw_receptor))) ''/tmp/receptor_cryst1.pdb'' =
      Some (File (merged_text raw_receptor atom_text))" by (simp add: id)
  from t raw_receptor_grep(1)
  have c: "merged_text raw_receptor atom_text = strip cryst_record @ newline @ atom_text"
    and d: "first_line (merged_text raw_receptor atom_text) = strip cryst_record"
    unfolding id by blast+
  from u have b': "stat (fsys (snd (merge_of plain_receptor))) ''/tmp/receptor_cryst1.pdb'' =
      Some (File (merged_text plain_receptor atom_text))" by (simp add: id)
  from u raw_receptor_grep(2) have c': "merged_text plain_receptor atom_text = atom_text"
    unfolding id by blast
  have at: "stat (fsys (merge_world raw_receptor)) ''/tmp/receptor_atoms.pdb'' = Some (File atom_text)"
    using f(2) by simp
  from a b c d b' c' f(1) g(1) at raw_receptor_grep receptor_texts(6) show ?thesis
    by (simp add: cryst_record_strip)
qed

text \<open>
  Claim C5 as stated fails: the raw file has a unit-cell record line, and the first line
  of the merged file is not that line (the blanks at its end are gone).
\<close>

theorem cryst1_merge_counterexample:
  "read_text (merge_world raw_receptor) ''/tmp/rec.pdb'' = Inr raw_receptor
   \<and> cryst_record \<in> set (lines_of raw_receptor)
   \<and> prefix ''CRYST1'' cryst_record
   \<and> stat (fsys (snd (merge_of raw_receptor))) ''/tmp/receptor_cryst1.pdb'' =
       Some (File (''CRYST1 50.0 60.0 70.0 90 90 90 P 1'' @ newline @ atom_text))
   \<and> first_line (''CRYST1 50.0 60.0 70.0 90 90 90 P 1'' @ newline @ atom_text) \<noteq> cryst_record"
proof -
  note f = merge_world_facts [OF receptor_texts(1,2)]
  have tm: "text_mode grep_platform
              \<lparr>returncode = (if grep_lines ''CRYST1'' raw_receptor = [] then 1 else 0),
                stdout = grep_stdout ''CRYST1'' raw_receptor, stderr = []\<rparr> =
            Inr \<lparr>returncode = 0, stdout = cryst_record @ newline, stderr = []\<rparr>"
    using universal_newlines_id [OF receptor_texts(8)]
    by (simp add: text_mode_def grep_decoded raw_receptor_grep)
  have st: "strip (cryst_record @ newline) = strip cryst_record"
    using strip_snoc_newline [of cryst_record] by (simp add: newline_def)
  have id: "universal_newlines atom_text = atom_text"
    by (rule universal_newlines_id) (rule receptor_texts(6))
  from combine_result(2) [OF f(6) tm f(2) receptor_texts(5) f(3) merge_world_side]
  have b: "stat (fsys (snd (merge_of raw_receptor))) ''/tmp/receptor_cryst1.pdb'' =
      Some (File (''CRYST1 50.0 60.0 70.0 90 90 90 P 1'' @ newline @ atom_text))"
    by (simp add: st id cryst_record_strip)
  have d: "first_line (''CRYST1 50.0 60.0 70.0 90 90 90 P 1'' @ newline @ atom_text) =
      ''CRYST1 50.0 60.0 70.0 90 90 90 P 1''"
    by (simp add: first_line_def newline_def)
  have e: "''CRYST1 50.0 60.0 70.0 90 90 90 P 1'' \<noteq> cryst_record"
    by (simp add: cryst_record_def)
  have g: "cryst_record \<in> set (lines_of raw_receptor)" by (simp add: raw_receptor_lines)
  have h: "prefix ''CRYST1'' cryst_record" by (simp add: cryst_record_def)
  from b d e g h f(1) show ?thesis by simp
qed

end
